theory Spec2Isabelle
  imports Complex_Main "HOL-Library.Word"
begin

unbundle bit_operations_syntax

section \<open>Pupil tracker of \<open>pipeline/utils/eye_tracking.py\<close>: data model\<close>

text \<open>
  The development embeds class \<open>PupilTracker\<close>: \<open>__init__\<close>, \<open>goodness_of_fit\<close>,
  \<open>get_pupil_from_contours\<close>, \<open>preprocess_image\<close> and the frame loop of \<open>track\<close>.

  Conventions.
  \<^item> A grayscale image (\<open>uint8\<close> array) is a list of rows of \<open>8 word\<close>; a float array
    is a list of rows of reals. Floating-point numbers are read as exact reals, so
    rounding, infinities and NaN are outside the model.
  \<^item> A contour is the list of its \<open>(x, y)\<close> pixel coordinates. OpenCV's contour
    extraction yields coordinates inside the image, hence natural numbers.
  \<^item> An ellipse is OpenCV's rotated rectangle \<open>((x, y), (size0, size1), angle)\<close>.
  \<^item> Exceptions are values of type \<open>error\<close>; a function that may raise returns
    \<open>error + 'a\<close>.
  \<^item> The OpenCV primitives are not part of the repository; they are the fields of a
    record \<open>cv2\<close> handed to every function that calls them.
  \<^item> Drawing on the display image, \<open>print\<close> and the pandas tables of
    \<open>get_pupil_from_contours\<close> only produce diagnostics and are left out.
  \<^item> The parameter dictionary is a record, so every key the tracker reads is present.
  \<^item> A region of interest is \<open>((r0, r1), (c0, c1))\<close> with natural bounds. The frames
    and the static mask of one run have one size; the elementwise operations are
    written for arrays of equal shape.
  \<^item> A power \<open>x ** p\<close> of a non-negative base is \<open>x powr p\<close>.
\<close>

type_synonym image = "8 word list list"
type_synonym fimage = "real list list"
type_synonym point = "nat \<times> nat"
type_synonym contour = "point list"
type_synonym ellipse = "(real \<times> real) \<times> (real \<times> real) \<times> real"

datatype error =
    Cv2Error
  | IndexError
  | ZeroDivisionError
  | TypeError
  | PipelineException string

subsection \<open>\<open>goodness_of_fit\<close>\<close>

text \<open>
  \<^verbatim>\<open>
  center, size, angle = ellipse
  angle *= np.pi / 180
  err = 0
  for coord in contour.squeeze().astype(np.float):
      posx = (coord[0] - center[0]) * np.cos(-angle) - (coord[1] - center[1]) * np.sin(-angle)
      posy = (coord[0] - center[0]) * np.sin(-angle) + (coord[1] - center[1]) * np.cos(-angle)
      err += ((posx / size[0]) ** 2 + (posy / size[1]) ** 2 - 0.25) ** 2
  return np.sqrt(err / len(contour))
  \<close>
  \<open>gof_body\<close> is one pass through the loop body. With no point \<open>err\<close> is still the
  integer \<open>0\<close> and \<open>0 / 0\<close> raises; with a single point \<open>squeeze\<close> drops the point
  axis as well and \<open>coord[0]\<close> indexes a scalar.
\<close>

definition gof_body :: "(real \<times> real) \<Rightarrow> (real \<times> real) \<Rightarrow> real \<Rightarrow> real \<Rightarrow> (real \<times> real) \<Rightarrow> real" where
  "gof_body center sz angle err coord =
     (let posx = (fst coord - fst center) * cos (- angle) - (snd coord - snd center) * sin (- angle);
          posy = (fst coord - fst center) * sin (- angle) + (snd coord - snd center) * cos (- angle)
      in err + ((posx / fst sz)\<^sup>2 + (posy / snd sz)\<^sup>2 - 0.25)\<^sup>2)"

definition astype_float :: "contour \<Rightarrow> (real \<times> real) list" where
  "astype_float contour = map (\<lambda>(x, y). (real x, real y)) contour"

definition goodness_of_fit :: "contour \<Rightarrow> ellipse \<Rightarrow> error + real" where
  "goodness_of_fit contour ellipse =
     (case ellipse of (center, sz, angle0) \<Rightarrow>
        let angle = angle0 * (pi / 180) in
        if length contour = 0 then Inl ZeroDivisionError
        else if length contour = 1 then Inl IndexError
        else Inr (sqrt (foldl (gof_body center sz angle) 0 (astype_float contour)
                        / real (length contour))))"

subsection \<open>The residual in the words of the specification\<close>

text \<open>
  The point translated by \<open>- center\<close> and rotated by \<open>- angle\<close> (in degrees), and the
  normalised conic residual of a point for given divisors of the two local coordinates.
\<close>

definition local_frame :: "(real \<times> real) \<Rightarrow> real \<Rightarrow> point \<Rightarrow> real \<times> real" where
  "local_frame center angle_deg p =
     (let a = angle_deg * pi / 180;
          dx = real (fst p) - fst center;
          dy = real (snd p) - snd center
      in (dx * cos a + dy * sin a, dy * cos a - dx * sin a))"

definition conic_residual :: "real \<Rightarrow> real \<Rightarrow> real \<times> real \<Rightarrow> real" where
  "conic_residual dx dy l = ((fst l / dx)\<^sup>2 + (snd l / dy)\<^sup>2 - 0.25)\<^sup>2"

definition rms_residual :: "real \<Rightarrow> real \<Rightarrow> (real \<times> real) \<Rightarrow> real \<Rightarrow> contour \<Rightarrow> real" where
  "rms_residual dx dy center angle_deg contour =
     sqrt (sum_list (map (\<lambda>p. conic_residual dx dy (local_frame center angle_deg p)) contour)
           / real (length contour))"

text \<open>The specification's reading: local x over the major axis, local y over the minor axis.\<close>

definition spec_goodness_of_fit :: "contour \<Rightarrow> ellipse \<Rightarrow> real" where
  "spec_goodness_of_fit contour ellipse =
     (case ellipse of (center, sz, angle) \<Rightarrow>
        rms_residual (max (fst sz) (snd sz)) (min (fst sz) (snd sz)) center angle contour)"

subsection \<open>Parameters, tracker object, OpenCV primitives\<close>

text \<open>
  The parameter dictionary, with the keys the tracker reads. Key \<open>extreme_meso\<close> is
  optional (\<open>None\<close>: absent); \<open>running_avg\<close> and \<open>exponent\<close> are read only when it is set.
\<close>

record params =
  relative_area_threshold :: real
  ratio_threshold :: real
  error_threshold :: real
  min_contour_len :: int
  margin :: real
  contrast_threshold :: real
  speed_threshold :: real
  dr_threshold :: real
  gaussian_blur :: real
  extreme_meso :: "bool option"
  running_avg :: real
  exponent :: real

text \<open>The attributes of a \<open>PupilTracker\<close> instance: \<open>self._params\<close>, \<open>self._center\<close>, ...\<close>

record tracker =
  self_params :: params
  self_center :: "(real \<times> real) option"
  self_radius :: "real option"
  self_mask :: "image option"
  self_last_detection :: int
  self_last_ellipse :: "ellipse option"
  self_running_avg :: "fimage option"

text \<open>
  The OpenCV calls of the tracker; \<open>'f\<close> is the type of a raw colour frame.
  \<open>erode\<close> is \<open>cv2.erode(mask, np.ones((3, 3)), iterations=1)\<close>, \<open>dilate m n\<close> is
  \<open>cv2.dilate(m, np.ones((3, 3)), iterations=n)\<close>, \<open>ellipse_filled shape e\<close> is
  \<open>cv2.ellipse(np.zeros(shape), e, 255, thickness=cv2.FILLED)\<close>, \<open>threshold\<close> is the
  Otsu binarisation and \<open>GaussianBlur img k\<close> blurs with a \<open>k \<times> k\<close> kernel.
\<close>

record 'f cv2 =
  cvtColor :: "'f \<Rightarrow> image"
  GaussianBlur :: "image \<Rightarrow> int \<Rightarrow> image"
  threshold :: "image \<Rightarrow> image"
  fitEllipse :: "contour \<Rightarrow> ellipse"
  erode :: "image \<Rightarrow> image"
  dilate :: "image \<Rightarrow> nat \<Rightarrow> image"
  ellipse_filled :: "nat \<times> nat \<Rightarrow> ellipse \<Rightarrow> image"
  findContours :: "image \<Rightarrow> contour list"

subsection \<open>\<open>__init__\<close>\<close>

text \<open>
  \<^verbatim>\<open>
  def __init__(self, param, mask=None):
      self._params = param
      self._center = None
      self._radius = None
      self._mask = mask
      self._last_detection = 1
      self._last_ellipse = None
  \<close>
  \<open>_running_avg = None\<close> is the class attribute. The body has no \<open>raise\<close>.
\<close>

definition PupilTracker_init :: "params \<Rightarrow> image option \<Rightarrow> error + tracker" where
  "PupilTracker_init param msk =
     Inr \<lparr> self_params = param, self_center = None, self_radius = None, self_mask = msk,
           self_last_detection = 1, self_last_ellipse = None, self_running_avg = None \<rparr>"

text \<open>The configurations the specification calls malformed.\<close>

definition malformed :: "params \<Rightarrow> bool" where
  "malformed p \<longleftrightarrow>
     min_contour_len p < 5 \<or> gaussian_blur p \<le> 0 \<or> \<not> (0 < margin p \<and> margin p < 0.5)"

subsection \<open>Array helpers\<close>

text \<open>\<open>a.shape\<close> of a two-dimensional array: rows, columns.\<close>

definition np_shape :: "'a list list \<Rightarrow> nat \<times> nat" where
  "np_shape img = (length img, (case img of [] \<Rightarrow> 0 | row # _ \<Rightarrow> length row))"

text \<open>\<open>img[slice(*eye_roi[0]), slice(*eye_roi[1])]\<close> for a region \<open>((r0, r1), (c0, c1))\<close>.\<close>

definition crop :: "'a list list \<Rightarrow> (nat \<times> nat) \<times> (nat \<times> nat) \<Rightarrow> 'a list list" where
  "crop img eye_roi =
     (case eye_roi of ((r0, r1), (c0, c1)) \<Rightarrow>
        map (\<lambda>row. take (c1 - c0) (drop c0 row)) (take (r1 - r0) (drop r0 img)))"

text \<open>\<open>np.std\<close>: the population standard deviation of all pixels.\<close>

definition np_std :: "image \<Rightarrow> real" where
  "np_std img =
     (let xs = map (\<lambda>p. real (unat p)) (concat img);
          n = real (length xs);
          m = sum_list xs / n
      in sqrt (sum_list (map (\<lambda>x. (x - m)\<^sup>2) xs) / n))"

text \<open>In-place product of two \<open>uint8\<close> arrays of one shape (\<open>thres *= mask\<close>); it wraps.\<close>

definition img_mul :: "image \<Rightarrow> image \<Rightarrow> image" where
  "img_mul a b = map2 (\<lambda>ra rb. map2 (\<lambda>x y. x * y) ra rb) a b"

definition np_ones :: "nat \<times> nat \<Rightarrow> image" where
  "np_ones shp = replicate (fst shp) (replicate (snd shp) 1)"

text \<open>Python's \<open>int(x)\<close> and numpy's \<open>astype(np.uint8)\<close> truncate towards zero.\<close>

definition py_int :: "real \<Rightarrow> int" where
  "py_int x = (if 0 \<le> x then \<lfloor>x\<rfloor> else \<lceil>x\<rceil>)"

definition astype_uint8 :: "fimage \<Rightarrow> image" where
  "astype_uint8 R = map (map (\<lambda>x. word_of_int (py_int x))) R"

text \<open>\<open>np.array(small_gray / 255) ** p * 255\<close>\<close>

definition gamma_img :: "real \<Rightarrow> image \<Rightarrow> fimage" where
  "gamma_img p small_gray = map (map (\<lambda>v. (real (unat v) / 255) powr p * 255)) small_gray"

text \<open>\<open>c * np.array(small_gray / 255) ** p * 255 + (1 - c) * self._running_avg\<close>\<close>

definition running_avg_update :: "real \<Rightarrow> real \<Rightarrow> image \<Rightarrow> fimage \<Rightarrow> fimage" where
  "running_avg_update c p small_gray R =
     map2 (\<lambda>row rrow. map2 (\<lambda>v r. c * (real (unat v) / 255) powr p * 255 + (1 - c) * r) row rrow)
       small_gray R"

subsection \<open>\<open>get_pupil_from_contours\<close>\<close>

text \<open>
  \<^verbatim>\<open>
  idx = mask2[cnt[..., 1], cnt[..., 0]] > 0
  cnt = cnt[idx]
  \<close>
  Indexing outside the mask raises.
\<close>

definition restrict_to_mask :: "image \<Rightarrow> contour \<Rightarrow> error + contour" where
  "restrict_to_mask mask2 cnt =
     (if list_all (\<lambda>(x, y). y < length mask2 \<and> x < length (mask2 ! y)) cnt
      then Inr (filter (\<lambda>(x, y). 0 < mask2 ! y ! x) cnt)
      else Inl IndexError)"

text \<open>\<open>area = np.prod(ellipse[1]) / np.prod(small_gray.shape)\<close>\<close>

definition relative_area :: "real \<times> real \<Rightarrow> nat \<times> nat \<Rightarrow> real" where
  "relative_area axes shp = (fst axes * snd axes) / real (fst shp * snd shp)"

text \<open>
  \<^verbatim>\<open>
  dr = 0 if self._radius is None else np.abs(r - self._radius) / self._radius
  dx = 0 if self._center is None else np.sqrt(np.sum((center - self._center) ** 2))
  \<close>
\<close>

definition cand_dr :: "tracker \<Rightarrow> real \<Rightarrow> real" where
  "cand_dr self r = (case self_radius self of None \<Rightarrow> 0 | Some rad \<Rightarrow> \<bar>r - rad\<bar> / rad)"

definition cand_dx :: "tracker \<Rightarrow> real \<times> real \<Rightarrow> real" where
  "cand_dx self center =
     (case self_center self of None \<Rightarrow> 0
      | Some c \<Rightarrow> sqrt ((fst center - fst c)\<^sup>2 + (snd center - snd c)\<^sup>2))"

text \<open>
  The seven conditions, in the order of the sum \<open>matching_conditions\<close> (and of the
  \<open>cond\<close> table): ratio, area, rmse, x coord, y coord, dx, dr/r.
\<close>

definition conditions ::
  "tracker \<Rightarrow> real \<Rightarrow> real \<Rightarrow> real \<Rightarrow> real \<times> real \<Rightarrow> real \<Rightarrow> real \<Rightarrow> bool list" where
  "conditions self ratio area curr_err center dx dr =
     (let P = self_params self in
      [ratio \<le> ratio_threshold P,
       area \<ge> relative_area_threshold P,
       curr_err < error_threshold P,
       margin P < fst center \<and> fst center < 1 - margin P,
       margin P < snd center \<and> snd center < 1 - margin P,
       dx < speed_threshold P * real_of_int (self_last_detection self),
       dr < dr_threshold P * real_of_int (self_last_detection self)])"

definition matching_conditions :: "bool list \<Rightarrow> nat" where
  "matching_conditions conds = sum_list (map (\<lambda>b. if b then 1 else 0) conds)"

text \<open>
  A scored candidate: the contour restricted to the mask, its fitted ellipse, its
  \<open>curr_err\<close> and its conditions.
\<close>

type_synonym candidate = "contour \<times> ellipse \<times> real \<times> bool list"

definition cand_contour :: "candidate \<Rightarrow> contour" where
  "cand_contour c = fst c"

definition cand_ellipse :: "candidate \<Rightarrow> ellipse" where
  "cand_ellipse c = fst (snd c)"

definition cand_rmse :: "candidate \<Rightarrow> real" where
  "cand_rmse c = fst (snd (snd c))"

definition cand_conditions :: "candidate \<Rightarrow> bool list" where
  "cand_conditions c = snd (snd (snd c))"

definition match_count :: "candidate \<Rightarrow> nat" where
  "match_count c = matching_conditions (cand_conditions c)"

text \<open>
  The loop body up to the update of the best candidate. \<open>Inr None\<close> is \<open>continue\<close>.
  \<open>cv2.fitEllipse\<close> needs five points (the source: ``otherwise fitEllipse won't work'').
  \<open>x / small_gray.shape[1]\<close> and \<open>y / small_gray.shape[0]\<close> divide Python numbers.
\<close>

definition score_contour ::
  "'f cv2 \<Rightarrow> tracker \<Rightarrow> image \<Rightarrow> image \<Rightarrow> contour \<Rightarrow> error + candidate option" where
  "score_contour cv self small_gray msk cnt0 =
     (let mask2 = erode cv msk in
      case restrict_to_mask mask2 cnt0 of
        Inl e \<Rightarrow> Inl e
      | Inr cnt \<Rightarrow>
          if int (length cnt) < min_contour_len (self_params self) then Inr None
          else if length cnt < 5 then Inl Cv2Error
          else
            (let ellipse = fitEllipse cv cnt in
             case ellipse of ((x, y), axes, angle) \<Rightarrow>
               if min (fst axes) (snd axes) = 0 then Inr None
               else
                 (let ratio = max (fst axes) (snd axes) / min (fst axes) (snd axes);
                      area = relative_area axes (np_shape small_gray)
                  in case goodness_of_fit cnt ellipse of
                       Inl e \<Rightarrow> Inl e
                     | Inr curr_err \<Rightarrow>
                         if snd (np_shape small_gray) = 0 \<or> fst (np_shape small_gray) = 0
                         then Inl ZeroDivisionError
                         else
                           (let center = (x / real (snd (np_shape small_gray)),
                                          y / real (fst (np_shape small_gray)));
                                r = max (fst axes) (snd axes);
                                dr = cand_dr self r;
                                dx = cand_dx self center
                            in Inr (Some (cnt, ellipse, curr_err,
                                 conditions self ratio area curr_err center dx dr))))))"

text \<open>
  The loop with its three variables \<open>err\<close>, \<open>best_ellipse\<close>, \<open>best_contour\<close>;
  \<open>err = None\<close> stands for the initial \<open>np.inf\<close>.
  \<^verbatim>\<open>
  if curr_err < err and matching_conditions == 7:
      best_ellipse = ellipse
      best_contour = cnt
      err = curr_err
  \<close>
\<close>

definition below :: "real \<Rightarrow> real option \<Rightarrow> bool" where
  "below curr_err err = (case err of None \<Rightarrow> True | Some e \<Rightarrow> curr_err < e)"

fun contour_loop ::
  "'f cv2 \<Rightarrow> tracker \<Rightarrow> image \<Rightarrow> image \<Rightarrow> contour list \<Rightarrow>
     real option \<times> ellipse option \<times> contour option \<Rightarrow>
     error + (real option \<times> ellipse option \<times> contour option)" where
  "contour_loop cv self small_gray msk [] acc = Inr acc"
| "contour_loop cv self small_gray msk (cnt # rest) acc =
     (case score_contour cv self small_gray msk cnt of
        Inl e \<Rightarrow> Inl e
      | Inr None \<Rightarrow> contour_loop cv self small_gray msk rest acc
      | Inr (Some cand) \<Rightarrow>
          if below (cand_rmse cand) (fst acc) \<and> match_count cand = 7
          then contour_loop cv self small_gray msk rest
                 (Some (cand_rmse cand), Some (cand_ellipse cand), Some (cand_contour cand))
          else contour_loop cv self small_gray msk rest acc)"

text \<open>
  \<^verbatim>\<open>
  if best_ellipse is None:
      ...
      self._last_detection += 1
  else:
      self._last_detection = 1
  return best_contour, best_ellipse
  \<close>
\<close>

definition get_pupil_from_contours ::
  "'f cv2 \<Rightarrow> tracker \<Rightarrow> contour list \<Rightarrow> image \<Rightarrow> image \<Rightarrow>
     error + (tracker \<times> contour option \<times> ellipse option)" where
  "get_pupil_from_contours cv self contours small_gray msk =
     (case contour_loop cv self small_gray msk contours (None, None, None) of
        Inl e \<Rightarrow> Inl e
      | Inr (err, best_ellipse, best_contour) \<Rightarrow>
          (case best_ellipse of
             None \<Rightarrow> Inr (self\<lparr>self_last_detection := self_last_detection self + 1\<rparr>,
                          best_contour, best_ellipse)
           | Some _ \<Rightarrow> Inr (self\<lparr>self_last_detection := 1\<rparr>, best_contour, best_ellipse)))"

text \<open>
  The scored candidates of a contour list, in evaluation order: what the loop sees,
  without the selection.
\<close>

fun candidates ::
  "'f cv2 \<Rightarrow> tracker \<Rightarrow> image \<Rightarrow> image \<Rightarrow> contour list \<Rightarrow> error + candidate list" where
  "candidates cv self small_gray msk [] = Inr []"
| "candidates cv self small_gray msk (cnt # rest) =
     (case score_contour cv self small_gray msk cnt of
        Inl e \<Rightarrow> Inl e
      | Inr sc \<Rightarrow>
          (case candidates cv self small_gray msk rest of
             Inl e \<Rightarrow> Inl e
           | Inr cs \<Rightarrow> Inr ((case sc of None \<Rightarrow> [] | Some c \<Rightarrow> [c]) @ cs)))"

text \<open>
  The three loop variables after a candidate has been taken as the best one, and the
  loop restricted to the candidates that meet all seven conditions.
\<close>

definition acc_of :: "candidate \<Rightarrow> real option \<times> ellipse option \<times> contour option" where
  "acc_of c = (Some (cand_rmse c), Some (cand_ellipse c), Some (cand_contour c))"

fun pick ::
  "candidate list \<Rightarrow> real option \<times> ellipse option \<times> contour option \<Rightarrow>
     real option \<times> ellipse option \<times> contour option" where
  "pick [] acc = acc"
| "pick (c # cs) acc = pick cs (if below (cand_rmse c) (fst acc) then acc_of c else acc)"

definition full_match :: "candidate \<Rightarrow> bool" where
  "full_match c \<longleftrightarrow> match_count c = 7"

text \<open>The specification's relative area: the area of the ellipse over the area of the crop.\<close>

definition spec_relative_area :: "real \<times> real \<Rightarrow> nat \<times> nat \<Rightarrow> real" where
  "spec_relative_area axes shp = (pi * fst axes * snd axes / 4) / real (fst shp * snd shp)"

subsection \<open>\<open>preprocess_image\<close>\<close>

text \<open>
  \<^verbatim>\<open>
  h = int(self._params['gaussian_blur'])
  gray = cv2.cvtColor(frame, cv2.COLOR_BGR2GRAY)
  img_std = np.std(gray)
  small_gray = gray[slice(*eye_roi[0]), slice(*eye_roi[1])]
  if 'extreme_meso' in self._params and self._params['extreme_meso']:
      c = self._params['running_avg']
      p = self._params['exponent']
      if self._running_avg is None:
          self._running_avg = np.array(small_gray / 255) ** p * 255
      else:
          self._running_avg = c * np.array(small_gray / 255) ** p * 255 + (1 - c) * self._running_avg
          small_gray = self._running_avg.astype(np.uint8)
  blur = cv2.GaussianBlur(small_gray, (2 * h + 1, 2 * h + 1), 0)
  _, thres = cv2.threshold(blur, 0, 255, cv2.THRESH_BINARY + cv2.THRESH_OTSU)
  return gray, small_gray, img_std, thres, blur
  \<close>
  \<open>meso_step\<close> is the \<open>extreme_meso\<close> block: the new buffer and the new \<open>small_gray\<close>.
  OpenCV rejects a kernel size that is not positive.
\<close>

definition meso_step :: "params \<Rightarrow> fimage option \<Rightarrow> image \<Rightarrow> fimage option \<times> image" where
  "meso_step P buf small_gray =
     (if extreme_meso P = Some True then
        (let c = running_avg P; p = exponent P in
         case buf of
           None \<Rightarrow> (Some (gamma_img p small_gray), small_gray)
         | Some R \<Rightarrow>
             (let R' = running_avg_update c p small_gray R
              in (Some R', astype_uint8 R')))
      else (buf, small_gray))"

definition preprocess_image ::
  "'f cv2 \<Rightarrow> tracker \<Rightarrow> 'f \<Rightarrow> (nat \<times> nat) \<times> (nat \<times> nat) \<Rightarrow>
     error + (tracker \<times> image \<times> image \<times> real \<times> image \<times> image)" where
  "preprocess_image cv self frm eye_roi =
     (let h = py_int (gaussian_blur (self_params self));
          gray = cvtColor cv frm;
          img_std = np_std gray;
          small_gray0 = crop gray eye_roi;
          ms = meso_step (self_params self) (self_running_avg self) small_gray0;
          self1 = self\<lparr>self_running_avg := fst ms\<rparr>;
          small_gray = snd ms
      in if 2 * h + 1 \<le> 0 then Inl Cv2Error
         else
           (let blur = GaussianBlur cv small_gray (2 * h + 1);
                thres = threshold cv blur
            in Inr (self1, gray, small_gray, img_std, thres, blur)))"

subsection \<open>\<open>track\<close>\<close>

text \<open>
  One call of \<open>cap.read()\<close> together with the key \<open>cv2.waitKey(1)\<close> reports for that
  frame; a video is the list of its reads, \<open>n_frames\<close> long.
\<close>

record 'f capture_read =
  ret :: bool
  frame :: 'f
  waitKey :: int

text \<open>
  An entry of \<open>traces\<close>. Keys \<open>frame_intensity\<close> and the detection block
  (\<open>center\<close>, \<open>major_r\<close>, \<open>rotated_rect\<close>, \<open>contour\<close>) are absent on some paths.
\<close>

record detected =
  center :: "real \<times> real"
  major_r :: real
  rotated_rect :: "real list"
  contour :: "(16 word \<times> 16 word) list"

record trace =
  frame_id :: int
  frame_intensity :: "real option"
  detection :: "detected option"

text \<open>
  \<^verbatim>\<open>
  if self._last_ellipse is not None:
      mask = np.zeros(small_mask.shape, dtype=np.uint8)
      cv2.ellipse(mask, tuple(self._last_ellipse), (255), thickness=cv2.FILLED)
      mask = cv2.dilate(mask, mask_kernel, iterations=dilation_iter)
      thres *= mask
  thres *= small_mask
  _, contours, hierarchy1 = cv2.findContours(thres.copy(), cv2.RETR_TREE, cv2.CHAIN_APPROX_SIMPLE)
  \<close>
\<close>

definition detect_contours :: "'f cv2 \<Rightarrow> tracker \<Rightarrow> image \<Rightarrow> image \<Rightarrow> contour list" where
  "detect_contours cv self thres small_mask =
     (let thres1 = (case self_last_ellipse self of
                      None \<Rightarrow> thres
                    | Some e \<Rightarrow> img_mul thres (dilate cv (ellipse_filled cv (np_shape small_mask) e) 10));
          thres2 = img_mul thres1 small_mask
      in findContours cv thres2)"

text \<open>
  \<^verbatim>\<open>
  eye_center = eye_roi[::-1, 0] + np.asarray(ellipse[0])
  traces.append(dict(center=eye_center, major_r=np.max(ellipse[1]),
                     rotated_rect=np.hstack(ellipse), contour=contour.astype(np.int16),
                     frame_id=fr_count, frame_intensity=img_std))
  \<close>
\<close>

definition detected_trace ::
  "(nat \<times> nat) \<times> (nat \<times> nat) \<Rightarrow> int \<Rightarrow> real \<Rightarrow> contour \<Rightarrow> ellipse \<Rightarrow> trace" where
  "detected_trace eye_roi fr_count img_std cnt ellipse =
     (case ellipse of ((x, y), axes, angle) \<Rightarrow>
        \<lparr> frame_id = fr_count, frame_intensity = Some img_std,
          detection = Some
            \<lparr> center = (real (fst (snd eye_roi)) + x, real (fst (fst eye_roi)) + y),
              major_r = max (fst axes) (snd axes),
              rotated_rect = [x, y, fst axes, snd axes, angle],
              contour = map (\<lambda>(px, py). (of_nat px, of_nat py)) cnt \<rparr> \<rparr>)"

text \<open>
  The body of the \<open>while\<close> loop, \<open>fr_count\<close> already incremented.
  \<^verbatim>\<open>
  if not ret:
      traces.append(dict(frame_id=fr_count))
      continue
  gray, small_gray, img_std, thres, blur = self.preprocess_image(frame, eye_roi)
  if img_std < contrast_low:
      traces.append(dict(frame_id=fr_count, frame_intensity=img_std))
      continue
  ...
  contour, ellipse = self.get_pupil_from_contours(contours, blur, small_mask)
  self._last_ellipse = ellipse
  if contour is None:
      traces.append(dict(frame_id=fr_count, frame_intensity=img_std))
  else:
      eye_center = eye_roi[::-1, 0] + np.asarray(ellipse[0])
      self._center = np.asarray(ellipse[0]) / np.asarray(small_gray.shape[::-1])
      self._radius = max(ellipse[1])
      traces.append(...)
  if (cv2.waitKey(1) & 0xFF == ord('q')):
      raise PipelineException('Tracking aborted')
  \<close>
  A contour without an ellipse cannot be subscripted.
\<close>

definition track_frame ::
  "'f cv2 \<Rightarrow> (nat \<times> nat) \<times> (nat \<times> nat) \<Rightarrow> image \<Rightarrow> tracker \<Rightarrow> int \<Rightarrow> 'f capture_read \<Rightarrow>
     error + (tracker \<times> trace)" where
  "track_frame cv eye_roi small_mask self fr_count rd =
     (if \<not> ret rd
      then Inr (self, \<lparr> frame_id = fr_count, frame_intensity = None, detection = None \<rparr>)
      else
        case preprocess_image cv self (frame rd) eye_roi of
          Inl e \<Rightarrow> Inl e
        | Inr (self1, gray, small_gray, img_std, thres, blur) \<Rightarrow>
            if img_std < contrast_threshold (self_params self)
            then Inr (self1, \<lparr> frame_id = fr_count, frame_intensity = Some img_std, detection = None \<rparr>)
            else
              (let contours = detect_contours cv self1 thres small_mask in
               case get_pupil_from_contours cv self1 contours blur small_mask of
                 Inl e \<Rightarrow> Inl e
               | Inr (self2, cnt, ellipse) \<Rightarrow>
                   (let self3 = self2\<lparr>self_last_ellipse := ellipse\<rparr> in
                    case cnt of
                      None \<Rightarrow>
                        if waitKey rd AND 255 = 113
                        then Inl (PipelineException ''Tracking aborted'')
                        else Inr (self3, \<lparr> frame_id = fr_count, frame_intensity = Some img_std,
                                           detection = None \<rparr>)
                    | Some c \<Rightarrow>
                        (case ellipse of
                           None \<Rightarrow> Inl TypeError
                         | Some e \<Rightarrow>
                             (let self4 = self3\<lparr>
                                    self_center := Some (fst (fst e) / real (snd (np_shape small_gray)),
                                                         snd (fst e) / real (fst (np_shape small_gray))),
                                    self_radius := Some (max (fst (fst (snd e))) (snd (fst (snd e))))\<rparr>
                              in if waitKey rd AND 255 = 113
                                 then Inl (PipelineException ''Tracking aborted'')
                                 else Inr (self4, detected_trace eye_roi fr_count img_std c e))))))"

text \<open>
  The loop over the reads of the video, returning the final tracker and the traces in
  frame order, and \<open>track\<close> itself.
  \<^verbatim>\<open>
  if self._mask is not None:
      small_mask = self._mask[slice(*eye_roi[0]), slice(*eye_roi[1])].squeeze()
  else:
      small_mask = np.ones(np.diff(eye_roi, axis=1).squeeze().astype(int), dtype=np.uint8)
  \<close>
\<close>

fun track_loop ::
  "'f cv2 \<Rightarrow> (nat \<times> nat) \<times> (nat \<times> nat) \<Rightarrow> image \<Rightarrow> tracker \<Rightarrow> int \<Rightarrow> 'f capture_read list \<Rightarrow>
     error + (tracker \<times> trace list)" where
  "track_loop cv eye_roi small_mask self fr_count [] = Inr (self, [])"
| "track_loop cv eye_roi small_mask self fr_count (rd # rest) =
     (case track_frame cv eye_roi small_mask self (fr_count + 1) rd of
        Inl e \<Rightarrow> Inl e
      | Inr (self', t) \<Rightarrow>
          (case track_loop cv eye_roi small_mask self' (fr_count + 1) rest of
             Inl e \<Rightarrow> Inl e
           | Inr (self'', ts) \<Rightarrow> Inr (self'', t # ts)))"

definition small_mask_of :: "tracker \<Rightarrow> (nat \<times> nat) \<times> (nat \<times> nat) \<Rightarrow> image" where
  "small_mask_of self eye_roi =
     (case self_mask self of
        Some m \<Rightarrow> crop m eye_roi
      | None \<Rightarrow> np_ones (snd (fst eye_roi) - fst (fst eye_roi), snd (snd eye_roi) - fst (snd eye_roi)))"

definition track ::
  "'f cv2 \<Rightarrow> tracker \<Rightarrow> 'f capture_read list \<Rightarrow> (nat \<times> nat) \<times> (nat \<times> nat) \<Rightarrow>
     error + (tracker \<times> trace list)" where
  "track cv self video eye_roi =
     track_loop cv eye_roi (small_mask_of self eye_roi) self 0 video"

text \<open>A frame on which contour scoring runs: it was read and passes the contrast gate.\<close>

definition scored :: "'f cv2 \<Rightarrow> params \<Rightarrow> 'f capture_read \<Rightarrow> bool" where
  "scored cv P rd \<longleftrightarrow> ret rd \<and> \<not> np_std (cvtColor cv (frame rd)) < contrast_threshold P"

subsection \<open>A small concrete setting\<close>

text \<open>
  Inputs on which the theorems below are instantiated: a \<open>4 \<times> 4\<close> region, two contours
  with their ellipses, three frames, and stand-ins for the OpenCV calls (no blur, no
  erosion, a contour found exactly when the top-left pixel is set).
\<close>

definition contour_a :: contour where
  "contour_a = [(2, 2), (0, 2), (1, 3), (1, 1), (2, 2)]"

definition contour_b :: contour where
  "contour_b = [(2, 2), (0, 2), (1, 3), (1, 1), (1, 2)]"

definition ellipse_a :: ellipse where
  "ellipse_a = ((1, 2), (2, 2), 0)"

definition ellipse_b :: ellipse where
  "ellipse_b = ((1, 2), (2, 4), 0)"

definition cv_demo :: "image cv2" where
  "cv_demo =
     \<lparr> cvtColor = (\<lambda>f. f),
       GaussianBlur = (\<lambda>img k. img),
       threshold = (\<lambda>img. img),
       fitEllipse = (\<lambda>cnt. if cnt = contour_b then ellipse_b else ellipse_a),
       erode = (\<lambda>m. m),
       dilate = (\<lambda>m n. m),
       ellipse_filled = (\<lambda>shp e. replicate (fst shp) (replicate (snd shp) 255)),
       findContours = (\<lambda>img. case img of (v # _) # _ \<Rightarrow> if v = 0 then [] else [contour_a] | _ \<Rightarrow> []) \<rparr>"

definition params_demo :: params where
  "params_demo =
     \<lparr> relative_area_threshold = 1 / 4, ratio_threshold = 2, error_threshold = 1,
       min_contour_len = 5, margin = 1 / 10, contrast_threshold = 1 / 2,
       speed_threshold = 1 / 10, dr_threshold = 1 / 10, gaussian_blur = 1,
       extreme_meso = None, running_avg = 1 / 2, exponent = 2 \<rparr>"

definition params_bad :: params where
  "params_bad = params_demo \<lparr> min_contour_len := 3, margin := 7 / 10, gaussian_blur := - 1 \<rparr>"

definition params_meso :: params where
  "params_meso = params_demo \<lparr> extreme_meso := Some True \<rparr>"

definition roi_demo :: "(nat \<times> nat) \<times> (nat \<times> nat)" where
  "roi_demo = ((0, 4), (0, 4))"

definition roi_top :: "(nat \<times> nat) \<times> (nat \<times> nat)" where
  "roi_top = ((0, 2), (0, 4))"

definition ones_demo :: image where
  "ones_demo = [[1, 1, 1, 1], [1, 1, 1, 1], [1, 1, 1, 1], [1, 1, 1, 1]]"

definition frame_a :: image where
  "frame_a = [[2, 2, 2, 2], [2, 2, 2, 2], [0, 0, 0, 0], [0, 0, 0, 0]]"

definition frame_b :: image where
  "frame_b = [[0, 0, 0, 0], [0, 0, 0, 0], [2, 2, 2, 2], [2, 2, 2, 2]]"

definition frame_dark :: image where
  "frame_dark = [[0, 0, 0, 0], [0, 0, 0, 0], [0, 0, 0, 0], [0, 0, 0, 0]]"

definition read_of :: "image \<Rightarrow> image capture_read" where
  "read_of f = \<lparr> ret = True, frame = f, waitKey = - 1 \<rparr>"

definition tracker_demo :: tracker where
  "tracker_demo =
     \<lparr> self_params = params_demo, self_center = None, self_radius = None, self_mask = None,
       self_last_detection = 1, self_last_ellipse = None, self_running_avg = None \<rparr>"

text \<open>A tracker in the \<open>extreme_meso\<close> mode, before and after its first frame.\<close>

definition frame_meso :: image where
  "frame_meso = [[51, 51], [51, 51]]"

definition roi_meso :: "(nat \<times> nat) \<times> (nat \<times> nat)" where
  "roi_meso = ((0, 2), (0, 2))"

definition tracker_meso :: tracker where
  "tracker_meso = tracker_demo \<lparr> self_params := params_meso \<rparr>"

definition tracker_meso1 :: tracker where
  "tracker_meso1 = tracker_meso \<lparr> self_running_avg := Some [[51 / 5, 51 / 5], [51 / 5, 51 / 5]] \<rparr>"

text \<open>The tracker after a detection of \<open>ellipse_a\<close>.\<close>

definition tracker_found :: tracker where
  "tracker_found =
     tracker_demo \<lparr> self_center := Some (1 / 4, 1 / 2), self_radius := Some 2,
                    self_last_ellipse := Some ellipse_a \<rparr>"

section \<open>Goodness of fit\<close>

lemma foldl_gof_body:
  "foldl (gof_body c s (a * pi / 180)) e (astype_float cnt) =
     e + sum_list (map (\<lambda>p. conic_residual (fst s) (snd s) (local_frame c a p)) cnt)"
proof (induction cnt arbitrary: e)
  case Nil
  then show ?case by (simp add: astype_float_def)
next
  case (Cons p ps)
  have step: "gof_body c s (a * pi / 180) e (case p of (x, y) \<Rightarrow> (real x, real y)) =
      e + conic_residual (fst s) (snd s) (local_frame c a p)"
    by (cases p) (simp add: gof_body_def conic_residual_def local_frame_def Let_def algebra_simps)
  from Cons.IH [of "e + conic_residual (fst s) (snd s) (local_frame c a p)"] step
  show ?case by (simp add: astype_float_def)
qed

text \<open>
  C8 (amended): for a contour of at least two points, \<open>goodness_of_fit\<close> returns the
  square root of the mean over the contour points of
  \<open>((localX / size0)\<^sup>2 + (localY / size1)\<^sup>2 - 0.25)\<^sup>2\<close>, where the local coordinates are
  the point translated by \<open>- center\<close> and rotated by \<open>- angle\<close>, and \<open>size0\<close>, \<open>size1\<close>
  are the first and second component of the ellipse size in the order OpenCV returns
  them, whichever of the two is the longer. When the first component is the longer one
  this is the value the specification describes.
\<close>

theorem goodness_of_fit_rms:
  "2 \<le> length cnt \<Longrightarrow>
     goodness_of_fit cnt (c, (s0, s1), a) = Inr (rms_residual s0 s1 c a cnt) \<and>
     (s1 \<le> s0 \<longrightarrow> goodness_of_fit cnt (c, (s0, s1), a) = Inr (spec_goodness_of_fit cnt (c, (s0, s1), a)))"
proof -
  assume len: "2 \<le> length cnt"
  from len have ne: "cnt \<noteq> []" "length cnt \<noteq> Suc 0"
    by auto
  have "goodness_of_fit cnt (c, (s0, s1), a) = Inr (rms_residual s0 s1 c a cnt)"
    using ne by (simp add: goodness_of_fit_def rms_residual_def foldl_gof_body)
  moreover have "s1 \<le> s0 \<Longrightarrow> spec_goodness_of_fit cnt (c, (s0, s1), a) = rms_residual s0 s1 c a cnt"
    by (simp add: spec_goodness_of_fit_def max_def min_def)
  ultimately show ?thesis by simp
qed

text \<open>
  The specification's reading of the residual fails where the second size component is
  the longer one: the code's value is \<open>0\<close>, the specification's is not.
\<close>

theorem goodness_of_fit_major_axis_counterexample:
  "goodness_of_fit [(2, 2), (0, 2), (1, 4), (1, 0), (2, 2)] ((1, 2), (2, 4), 0)
     \<noteq> Inr (spec_goodness_of_fit [(2, 2), (0, 2), (1, 4), (1, 0), (2, 2)] ((1, 2), (2, 4), 0))"
  by (simp add: goodness_of_fit_def gof_body_def astype_float_def
      spec_goodness_of_fit_def rms_residual_def conic_residual_def local_frame_def power2_eq_square)

theorem goodness_of_fit_rms_witness:
  "(2::nat) \<le> length contour_a \<and> (2::real) \<le> 2 \<and>
   goodness_of_fit contour_a ((1, 2), (2, 2), 0) = Inr 0 \<and>
   spec_goodness_of_fit contour_a ((1, 2), (2, 2), 0) = 0"
proof -
  have v: "rms_residual 2 2 (1, 2) 0 contour_a = 0"
    by (simp add: contour_a_def rms_residual_def conic_residual_def local_frame_def power2_eq_square)
  have len: "2 \<le> length contour_a"
    by (simp add: contour_a_def)
  from goodness_of_fit_rms [OF len, of "(1, 2)" 2 2 0] v len show ?thesis
    by auto
qed

section \<open>Construction\<close>

text \<open>
  C7 (amended): constructing a tracker never fails and never alters the configuration:
  for every parameter set, malformed or not, \<open>__init__\<close> returns a tracker that holds
  the parameters as given, with no centre, radius or last ellipse and the counter at 1.
\<close>

theorem init_never_fails:
  "PupilTracker_init p m =
     Inr \<lparr> self_params = p, self_center = None, self_radius = None, self_mask = m,
           self_last_detection = 1, self_last_ellipse = None, self_running_avg = None \<rparr>"
  by (simp add: PupilTracker_init_def)

theorem init_never_fails_witness:
  "malformed params_bad \<and> PupilTracker_init params_bad None = Inr (tracker_demo \<lparr> self_params := params_bad \<rparr>)"
  using init_never_fails [of params_bad None]
  by (simp add: malformed_def params_bad_def params_demo_def tracker_demo_def)

text \<open>A malformed configuration on which construction succeeds.\<close>

theorem init_malformed_counterexample:
  "min_contour_len params_bad < 5 \<and> gaussian_blur params_bad \<le> 0 \<and>
   \<not> (0 < margin params_bad \<and> margin params_bad < 0.5) \<and>
   \<not> isl (PupilTracker_init params_bad None) \<and>
   self_params (projr (PupilTracker_init params_bad None)) = params_bad"
  by (simp add: PupilTracker_init_def params_bad_def params_demo_def)

section \<open>Evaluation of the concrete setting\<close>


lemma cv_demo_simps:
  "cvtColor cv_demo f = f" "GaussianBlur cv_demo img k = img" "threshold cv_demo img = img"
  "fitEllipse cv_demo contour_a = ellipse_a" "fitEllipse cv_demo contour_b = ellipse_b"
  "erode cv_demo m = m" "dilate cv_demo m n = m"
  "ellipse_filled cv_demo shp e = replicate (fst shp) (replicate (snd shp) 255)"
  "findContours cv_demo frame_a = [contour_a]"
  "findContours cv_demo frame_b = []"
  by (simp_all add: cv_demo_def contour_a_def contour_b_def frame_a_def frame_b_def)

lemma demo_std: "np_std frame_dark = 0" "np_std frame_a = 1" "np_std frame_b = 1"
  by (simp_all add: np_std_def frame_dark_def frame_a_def frame_b_def)

lemma demo_crop:
  "crop frame_a roi_demo = frame_a" "crop frame_b roi_demo = frame_b" "crop frame_dark roi_demo = frame_dark"
  by (simp_all add: crop_def roi_demo_def frame_a_def frame_b_def frame_dark_def)

lemma demo_shape: "np_shape frame_a = (4, 4)" "np_shape frame_b = (4, 4)" "np_shape ones_demo = (4, 4)"
  by (simp_all add: np_shape_def frame_a_def frame_b_def ones_demo_def)

lemma demo_params:
  "self_params tracker_demo = params_demo" "self_params tracker_found = params_demo"
  "gaussian_blur params_demo = 1" "extreme_meso params_demo = None"
  "contrast_threshold params_demo = 1 / 2" "min_contour_len params_demo = 5"
  by (simp_all add: tracker_demo_def tracker_found_def params_demo_def)

lemma pre_demo:
  "self_params s = params_demo \<Longrightarrow> crop f roi = f \<Longrightarrow>
     preprocess_image cv_demo s f roi = Inr (s, f, f, np_std f, f, f)"
  by (simp add: preprocess_image_def meso_step_def cv_demo_simps demo_params py_int_def Let_def)

lemma gof_a: "goodness_of_fit contour_a ellipse_a = Inr 0"
  by (simp add: goodness_of_fit_def gof_body_def astype_float_def contour_a_def ellipse_a_def power2_eq_square)

lemma restrict_demo: "restrict_to_mask ones_demo contour_a = Inr contour_a"
  "restrict_to_mask ones_demo contour_b = Inr contour_b"
  by (simp_all add: restrict_to_mask_def ones_demo_def contour_a_def contour_b_def)

lemma len_demo: "length contour_a = 5" "length contour_b = 5"
  by (simp_all add: contour_a_def contour_b_def)

lemma score_a:
  assumes "self_params s = params_demo" "1 \<le> self_last_detection s"
    and "self_center s = None \<or> self_center s = Some (1 / 4, 1 / 2)"
    and "self_radius s = None \<or> self_radius s = Some 2"
    and "np_shape f = (4, 4)"
  shows "score_contour cv_demo s f ones_demo contour_a =
   Inr (Some (contour_a, ellipse_a, 0, [True, True, True, True, True, True, True]))"
proof -
  have dx: "cand_dx s (1 / 4, 1 / 2) = 0"
    using assms(3) by (auto simp: cand_dx_def)
  have dr: "cand_dr s 2 = 0"
    using assms(4) by (auto simp: cand_dr_def)
  have pos: "0 < real_of_int (self_last_detection s)"
    using assms(2) by simp
  have conds: "conditions s 1 (1 / 4) 0 (1 / 4, 1 / 2) 0 0 = [True, True, True, True, True, True, True]"
    using pos by (simp add: conditions_def assms(1) params_demo_def)
  have "score_contour cv_demo s f ones_demo contour_a =
     Inr (Some (contour_a, ellipse_a, 0, conditions s 1 (1 / 4) 0 (1 / 4, 1 / 2) 0 0))"
    by (simp add: score_contour_def cv_demo_simps restrict_demo len_demo demo_params assms(1,5) Let_def)
       (simp add: ellipse_a_def gof_a [unfolded ellipse_a_def] relative_area_def dx dr assms(5))
  then show ?thesis by (simp add: conds)
qed

lemma get_pupil_a:
  assumes "self_params s = params_demo" "1 \<le> self_last_detection s"
    and "self_center s = None \<or> self_center s = Some (1 / 4, 1 / 2)"
    and "self_radius s = None \<or> self_radius s = Some 2"
    and "np_shape f = (4, 4)"
  shows "get_pupil_from_contours cv_demo s [contour_a] f ones_demo =
     Inr (s\<lparr>self_last_detection := 1\<rparr>, Some contour_a, Some ellipse_a)"
  by (simp add: get_pupil_from_contours_def score_a [OF assms] below_def match_count_def
      matching_conditions_def cand_conditions_def cand_rmse_def cand_ellipse_def cand_contour_def)

lemma get_pupil_nil:
  "get_pupil_from_contours cv s [] f m = Inr (s\<lparr>self_last_detection := self_last_detection s + 1\<rparr>, None, None)"
  by (simp add: get_pupil_from_contours_def)

lemma mul_ones: "img_mul frame_a ones_demo = frame_a" "img_mul frame_b ones_demo = frame_b"
  by (simp_all add: img_mul_def frame_a_def frame_b_def ones_demo_def)

lemma full_demo: "replicate 4 (replicate 4 (255::8 word)) =
    [[255, 255, 255, 255], [255, 255, 255, 255], [255, 255, 255, 255], [255, 255, 255, 255]]"
  by (simp add: eval_nat_numeral)

lemma mul_full:
  "img_mul frame_a (replicate 4 (replicate 4 255)) = [[254, 254, 254, 254], [254, 254, 254, 254], [0, 0, 0, 0], [0, 0, 0, 0]]"
  "img_mul frame_b (replicate 4 (replicate 4 255)) = [[0, 0, 0, 0], [0, 0, 0, 0], [254, 254, 254, 254], [254, 254, 254, 254]]"
  by (simp_all add: full_demo img_mul_def frame_a_def frame_b_def)

lemma detect_demo:
  "detect_contours cv_demo s frame_a ones_demo = [contour_a]"
  "detect_contours cv_demo s frame_b ones_demo = []"
proof -
  show "detect_contours cv_demo s frame_a ones_demo = [contour_a]"
  proof (cases "self_last_ellipse s")
    case None
    then show ?thesis by (simp add: detect_contours_def mul_ones cv_demo_simps)
  next
    case (Some e)
    then show ?thesis
      by (simp add: detect_contours_def cv_demo_simps(7,8) demo_shape mul_full)
         (simp add: cv_demo_def img_mul_def ones_demo_def)
  qed
  show "detect_contours cv_demo s frame_b ones_demo = []"
  proof (cases "self_last_ellipse s")
    case None
    then show ?thesis by (simp add: detect_contours_def mul_ones cv_demo_simps)
  next
    case (Some e)
    then show ?thesis
      by (simp add: detect_contours_def cv_demo_simps(7,8) demo_shape mul_full)
         (simp add: cv_demo_def img_mul_def ones_demo_def)
  qed
qed

lemma wk: "waitKey (read_of f) AND 255 \<noteq> 113" "ret (read_of f)" "frame (read_of f) = f"
  by (simp_all add: read_of_def)

lemma frame_b_fails:
  assumes "self_params s = params_demo"
  shows "track_frame cv_demo roi_demo ones_demo s n (read_of frame_b) =
     Inr (s\<lparr>self_last_detection := self_last_detection s + 1, self_last_ellipse := None\<rparr>,
          \<lparr> frame_id = n, frame_intensity = Some 1, detection = None \<rparr>)"
  by (simp add: track_frame_def wk pre_demo [OF assms demo_crop(2)] demo_std assms demo_params
      detect_demo get_pupil_nil)

lemma frame_a_found:
  assumes "self_params s = params_demo" "1 \<le> self_last_detection s"
    and "self_center s = None \<or> self_center s = Some (1 / 4, 1 / 2)"
    and "self_radius s = None \<or> self_radius s = Some 2"
  shows "track_frame cv_demo roi_demo ones_demo s n (read_of frame_a) =
     Inr (s\<lparr>self_last_detection := 1, self_last_ellipse := Some ellipse_a,
             self_center := Some (1 / 4, 1 / 2), self_radius := Some 2\<rparr>,
          detected_trace roi_demo n 1 contour_a ellipse_a)"
  by (simp add: track_frame_def wk pre_demo [OF assms(1) demo_crop(1)] demo_std assms(1) demo_params
      detect_demo get_pupil_a [OF assms demo_shape(1)] demo_shape)
     (simp add: ellipse_a_def)

lemma frame_dark_low:
  assumes "self_params s = params_demo"
  shows "track_frame cv_demo roi_demo ones_demo s n (read_of frame_dark) =
     Inr (s, \<lparr> frame_id = n, frame_intensity = Some 0, detection = None \<rparr>)"
  by (simp add: track_frame_def wk pre_demo [OF assms demo_crop(3)] demo_std assms demo_params)


section \<open>Frame outcomes\<close>


lemma preprocess_image_Inr:
  assumes "preprocess_image cv s f roi = Inr (s1, gray, sg, std, thres, blur)"
  shows "s1 = s\<lparr>self_running_avg := fst (meso_step (self_params s) (self_running_avg s) (crop (cvtColor cv f) roi))\<rparr>"
    and "gray = cvtColor cv f"
    and "std = np_std (cvtColor cv f)"
    and "sg = snd (meso_step (self_params s) (self_running_avg s) (crop (cvtColor cv f) roi))"
    and "blur = GaussianBlur cv sg (2 * py_int (gaussian_blur (self_params s)) + 1)"
    and "thres = threshold cv blur"
  using assms by (auto simp: preprocess_image_def Let_def split: if_splits)

lemma contour_loop_both:
  "contour_loop cv s sg m cs acc = Inr (err, be, bc) \<Longrightarrow>
     (fst (snd acc) = None \<longleftrightarrow> snd (snd acc) = None) \<Longrightarrow> (be = None \<longleftrightarrow> bc = None)"
proof (induction cs arbitrary: acc)
  case Nil
  then show ?case by auto
next
  case (Cons c cs)
  show ?case
  proof (cases "score_contour cv s sg m c")
    case (Inl e)
    with Cons.prems show ?thesis by simp
  next
    case (Inr sc)
    show ?thesis
    proof (cases sc)
      case None
      with Inr Cons.prems Cons.IH [of acc] show ?thesis by simp
    next
      case (Some cand)
      show ?thesis
      proof (cases "below (cand_rmse cand) (fst acc) \<and> match_count cand = 7")
        case True
        with Inr Some Cons.prems(1)
        have "contour_loop cv s sg m cs (Some (cand_rmse cand), Some (cand_ellipse cand), Some (cand_contour cand)) = Inr (err, be, bc)"
          by simp
        from Cons.IH [OF this] show ?thesis by simp
      next
        case False
        with Inr Some Cons.prems(1)
        have "contour_loop cv s sg m cs acc = Inr (err, be, bc)"
          by auto
        from Cons.IH [OF this Cons.prems(2)] show ?thesis .
      qed
    qed
  qed
qed

lemma get_pupil_Inr:
  assumes "get_pupil_from_contours cv s cs sg m = Inr (s2, bc, be)"
  shows "s2 = s\<lparr>self_last_detection := (if be = None then self_last_detection s + 1 else 1)\<rparr>"
    and "be = None \<longleftrightarrow> bc = None"
proof -
  from assms obtain err where loop: "contour_loop cv s sg m cs (None, None, None) = Inr (err, be, bc)"
    by (auto simp: get_pupil_from_contours_def split: sum.splits option.splits)
  from assms loop show "s2 = s\<lparr>self_last_detection := (if be = None then self_last_detection s + 1 else 1)\<rparr>"
    by (auto simp: get_pupil_from_contours_def split: option.splits)
  from contour_loop_both [OF loop] show "be = None \<longleftrightarrow> bc = None" by simp
qed


text \<open>
  C4: on a frame that was read and whose measured contrast is below
  \<open>contrast_threshold\<close>, the tracker emits the record of frame id and frame intensity
  and returns; \<open>_last_ellipse\<close>, \<open>_center\<close>, \<open>_radius\<close> and \<open>_last_detection\<close> keep their
  values.
\<close>

theorem low_contrast_frame:
  assumes "ret rd"
    and "preprocess_image cv s (frame rd) roi = Inr (s1, gray, sg, std, thres, blur)"
    and "std < contrast_threshold (self_params s)"
  shows "track_frame cv roi sm s n rd =
           Inr (s1, \<lparr> frame_id = n, frame_intensity = Some std, detection = None \<rparr>) \<and>
         self_last_ellipse s1 = self_last_ellipse s \<and> self_center s1 = self_center s \<and>
         self_radius s1 = self_radius s \<and> self_last_detection s1 = self_last_detection s"
  using assms preprocess_image_Inr(1) [OF assms(2)]
  by (simp add: track_frame_def)


theorem low_contrast_frame_witness:
  "ret (read_of frame_dark) \<and>
   preprocess_image cv_demo tracker_found (frame (read_of frame_dark)) roi_demo =
     Inr (tracker_found, frame_dark, frame_dark, 0, frame_dark, frame_dark) \<and>
   (0::real) < contrast_threshold (self_params tracker_found) \<and>
   track_frame cv_demo roi_demo ones_demo tracker_found 7 (read_of frame_dark) =
     Inr (tracker_found, \<lparr> frame_id = 7, frame_intensity = Some 0, detection = None \<rparr>)"
proof -
  have r: "ret (read_of frame_dark)" by (simp add: wk)
  have p: "preprocess_image cv_demo tracker_found (frame (read_of frame_dark)) roi_demo =
     Inr (tracker_found, frame_dark, frame_dark, 0, frame_dark, frame_dark)"
    using pre_demo [OF demo_params(2) demo_crop(3)] by (simp add: wk demo_std)
  have c: "(0::real) < contrast_threshold (self_params tracker_found)"
    by (simp add: demo_params)
  from low_contrast_frame [OF r p c, of ones_demo 7] r p c show ?thesis by simp
qed

text \<open>
  C1 (amended): on a frame on which contour scoring runs and
  \<open>get_pupil_from_contours\<close> returns no best ellipse, \<open>_center\<close> and \<open>_radius\<close> keep the
  values of the most recent detection and \<open>_last_detection\<close> grows by one, while
  \<open>_last_ellipse\<close> is overwritten with \<open>None\<close>; the record holds the frame id and the
  frame intensity.
\<close>

theorem no_detection_frame:
  assumes "ret rd"
    and "preprocess_image cv s (frame rd) roi = Inr (s1, gray, sg, std, thres, blur)"
    and "\<not> std < contrast_threshold (self_params s)"
    and "get_pupil_from_contours cv s1 (detect_contours cv s1 thres sm) blur sm = Inr (s2, bc, None)"
    and "waitKey rd AND 255 \<noteq> 113"
  shows "\<exists>s'. track_frame cv roi sm s n rd =
            Inr (s', \<lparr> frame_id = n, frame_intensity = Some std, detection = None \<rparr>) \<and>
          self_center s' = self_center s \<and> self_radius s' = self_radius s \<and>
          self_last_detection s' = self_last_detection s + 1 \<and>
          self_last_ellipse s' = None"
proof -
  from get_pupil_Inr [OF assms(4)]
  have s2: "s2 = s1\<lparr>self_last_detection := self_last_detection s1 + 1\<rparr>" and bc: "bc = None"
    by simp_all
  from preprocess_image_Inr(1) [OF assms(2)]
  have s1: "self_center s1 = self_center s" "self_radius s1 = self_radius s"
    "self_last_detection s1 = self_last_detection s"
    by simp_all
  have "track_frame cv roi sm s n rd =
      Inr (s2\<lparr>self_last_ellipse := None\<rparr>, \<lparr> frame_id = n, frame_intensity = Some std, detection = None \<rparr>)"
    using assms by (simp add: track_frame_def bc)
  with s1 s2 show ?thesis by simp
qed

theorem no_detection_frame_witness:
  "ret (read_of frame_b) \<and>
   preprocess_image cv_demo tracker_found (frame (read_of frame_b)) roi_demo =
     Inr (tracker_found, frame_b, frame_b, 1, frame_b, frame_b) \<and>
   \<not> (1::real) < contrast_threshold (self_params tracker_found) \<and>
   get_pupil_from_contours cv_demo tracker_found (detect_contours cv_demo tracker_found frame_b ones_demo)
       frame_b ones_demo = Inr (tracker_found\<lparr>self_last_detection := 2\<rparr>, None, None) \<and>
   waitKey (read_of frame_b) AND 255 \<noteq> 113 \<and>
   (\<exists>s'. track_frame cv_demo roi_demo ones_demo tracker_found 2 (read_of frame_b) =
            Inr (s', \<lparr> frame_id = 2, frame_intensity = Some 1, detection = None \<rparr>) \<and>
          self_center s' = Some (1 / 4, 1 / 2) \<and> self_radius s' = Some 2 \<and>
          self_last_detection s' = 2 \<and> self_last_ellipse s' = None)"
proof -
  have r: "ret (read_of frame_b)" by (simp add: wk)
  have p: "preprocess_image cv_demo tracker_found (frame (read_of frame_b)) roi_demo =
     Inr (tracker_found, frame_b, frame_b, 1, frame_b, frame_b)"
    using pre_demo [OF demo_params(2) demo_crop(2)] by (simp add: wk demo_std)
  have c: "\<not> (1::real) < contrast_threshold (self_params tracker_found)"
    by (simp add: demo_params)
  have g: "get_pupil_from_contours cv_demo tracker_found (detect_contours cv_demo tracker_found frame_b ones_demo)
       frame_b ones_demo = Inr (tracker_found\<lparr>self_last_detection := 2\<rparr>, None, None)"
    by (simp add: detect_demo get_pupil_nil) (simp add: tracker_found_def tracker_demo_def)
  have k: "waitKey (read_of frame_b) AND 255 \<noteq> 113" by (rule wk)
  have f: "self_center tracker_found = Some (1 / 4, 1 / 2)" "self_radius tracker_found = Some 2"
    "self_last_detection tracker_found = 1"
    by (simp_all add: tracker_found_def tracker_demo_def)
  from no_detection_frame [OF r p c g k, of 2] r p c g k f show ?thesis by simp
qed

text \<open>
  A scored frame without a full-match candidate on which \<open>_last_ellipse\<close> does change:
  before the frame it is \<open>ellipse_a\<close>, after it \<open>None\<close>.
\<close>

theorem last_ellipse_cleared_counterexample:
  "scored cv_demo (self_params tracker_found) (read_of frame_b) \<and>
   self_last_ellipse tracker_found = Some ellipse_a \<and>
   track_frame cv_demo roi_demo ones_demo tracker_found 2 (read_of frame_b) =
     Inr (tracker_found\<lparr>self_last_detection := 2, self_last_ellipse := None\<rparr>,
          \<lparr> frame_id = 2, frame_intensity = Some 1, detection = None \<rparr>) \<and>
   self_last_ellipse (tracker_found\<lparr>self_last_detection := 2, self_last_ellipse := None\<rparr>)
     \<noteq> self_last_ellipse tracker_found"
  using frame_b_fails [OF demo_params(2), of 2]
  by (simp add: scored_def wk cv_demo_simps demo_std demo_params)
     (simp add: tracker_found_def tracker_demo_def)

lemma detected_trace_simps:
  "frame_id (detected_trace roi n std c e) = n"
  "frame_intensity (detected_trace roi n std c e) = Some std"
  "detection (detected_trace roi n std c e) \<noteq> None"
  "major_r (the (detection (detected_trace roi n std c e))) = max (fst (fst (snd e))) (snd (fst (snd e)))"
  "rotated_rect (the (detection (detected_trace roi n std c e))) =
     [fst (fst e), snd (fst e), fst (fst (snd e)), snd (fst (snd e)), snd (snd e)]"
  by (simp_all add: detected_trace_def split: prod.splits)

lemma track_frame_cases:
  assumes "track_frame cv roi sm s n rd = Inr (s', t)"
  obtains
    (dropped) "\<not> ret rd" "s' = s" "t = \<lparr> frame_id = n, frame_intensity = None, detection = None \<rparr>"
  | (low) s1 gray sg std thres blur where "ret rd"
      "preprocess_image cv s (frame rd) roi = Inr (s1, gray, sg, std, thres, blur)"
      "std < contrast_threshold (self_params s)" "s' = s1"
      "t = \<lparr> frame_id = n, frame_intensity = Some std, detection = None \<rparr>"
  | (miss) s1 gray sg std thres blur s2 where "ret rd"
      "preprocess_image cv s (frame rd) roi = Inr (s1, gray, sg, std, thres, blur)"
      "\<not> std < contrast_threshold (self_params s)"
      "get_pupil_from_contours cv s1 (detect_contours cv s1 thres sm) blur sm = Inr (s2, None, None)"
      "s' = s2\<lparr>self_last_ellipse := None\<rparr>"
      "t = \<lparr> frame_id = n, frame_intensity = Some std, detection = None \<rparr>"
      "waitKey rd AND 255 \<noteq> 113"
  | (hit) s1 gray sg std thres blur s2 c e where "ret rd"
      "preprocess_image cv s (frame rd) roi = Inr (s1, gray, sg, std, thres, blur)"
      "\<not> std < contrast_threshold (self_params s)"
      "get_pupil_from_contours cv s1 (detect_contours cv s1 thres sm) blur sm = Inr (s2, Some c, Some e)"
      "s' = s2\<lparr>self_last_ellipse := Some e,
                self_center := Some (fst (fst e) / real (snd (np_shape sg)),
                                     snd (fst e) / real (fst (np_shape sg))),
                self_radius := Some (max (fst (fst (snd e))) (snd (fst (snd e))))\<rparr>"
      "t = detected_trace roi n std c e"
      "waitKey rd AND 255 \<noteq> 113"
proof (cases "ret rd")
  case False
  with assms show ?thesis by (intro dropped) (auto simp: track_frame_def)
next
  case True
  show ?thesis
  proof (cases "preprocess_image cv s (frame rd) roi")
    case (Inl e)
    with True assms show ?thesis by (simp add: track_frame_def)
  next
    case (Inr r)
    then obtain s1 gray sg std thres blur
      where pre: "preprocess_image cv s (frame rd) roi = Inr (s1, gray, sg, std, thres, blur)"
      by (cases r) auto
    show ?thesis
    proof (cases "std < contrast_threshold (self_params s)")
      case lc: True
      with True pre assms show ?thesis by (intro low [OF True pre lc]) (auto simp: track_frame_def)
    next
      case high: False
      show ?thesis
      proof (cases "get_pupil_from_contours cv s1 (detect_contours cv s1 thres sm) blur sm")
        case (Inl e)
        with True pre high assms show ?thesis by (simp add: track_frame_def)
      next
        case (Inr g)
        then obtain s2 bc be
          where gp: "get_pupil_from_contours cv s1 (detect_contours cv s1 thres sm) blur sm = Inr (s2, bc, be)"
          by (cases g) auto
        from get_pupil_Inr(2) [OF gp] have both: "be = None \<longleftrightarrow> bc = None" .
        show ?thesis
        proof (cases bc)
          case None
          with both have be: "be = None" by simp
          from gp None be
          have gp': "get_pupil_from_contours cv s1 (detect_contours cv s1 thres sm) blur sm = Inr (s2, None, None)"
            by simp
          from True pre high gp' assms show ?thesis
            by (intro miss [OF True pre high gp']) (auto simp: track_frame_def split: if_splits)
        next
          case (Some c)
          with both obtain e where e: "be = Some e" by auto
          from gp Some e
          have gp': "get_pupil_from_contours cv s1 (detect_contours cv s1 thres sm) blur sm = Inr (s2, Some c, Some e)"
            by simp
          from True pre high gp' assms show ?thesis
            by (intro hit [OF True pre high gp']) (simp_all add: track_frame_def Let_def split: if_splits)
        qed
      qed
    qed
  qed
qed

lemma track_frame_summary:
  assumes "track_frame cv roi sm s n rd = Inr (s', t)"
  shows "self_params s' = self_params s"
    and "self_mask s' = self_mask s"
    and "frame_id t = n"
    and "ret rd \<Longrightarrow> frame_intensity t = Some (np_std (cvtColor cv (frame rd)))"
    and "\<not> scored cv (self_params s) rd \<Longrightarrow>
           detection t = None \<and> self_last_detection s' = self_last_detection s \<and>
           self_last_ellipse s' = self_last_ellipse s \<and> self_center s' = self_center s \<and>
           self_radius s' = self_radius s"
    and "scored cv (self_params s) rd \<Longrightarrow> detection t = None \<Longrightarrow>
           self_last_detection s' = self_last_detection s + 1 \<and> self_last_ellipse s' = None \<and>
           self_center s' = self_center s \<and> self_radius s' = self_radius s"
    and "detection t \<noteq> None \<Longrightarrow>
           scored cv (self_params s) rd \<and> self_last_detection s' = 1 \<and> self_last_ellipse s' \<noteq> None \<and>
           self_center s' \<noteq> None \<and> self_radius s' = Some (major_r (the (detection t)))"
proof -
  let ?std = "np_std (cvtColor cv (frame rd))"
  let ?all = "self_params s' = self_params s \<and> self_mask s' = self_mask s \<and> frame_id t = n \<and>
    (ret rd \<longrightarrow> frame_intensity t = Some ?std) \<and>
    (\<not> scored cv (self_params s) rd \<longrightarrow>
           detection t = None \<and> self_last_detection s' = self_last_detection s \<and>
           self_last_ellipse s' = self_last_ellipse s \<and> self_center s' = self_center s \<and>
           self_radius s' = self_radius s) \<and>
    (scored cv (self_params s) rd \<longrightarrow> detection t = None \<longrightarrow>
           self_last_detection s' = self_last_detection s + 1 \<and> self_last_ellipse s' = None \<and>
           self_center s' = self_center s \<and> self_radius s' = self_radius s) \<and>
    (detection t \<noteq> None \<longrightarrow>
           scored cv (self_params s) rd \<and> self_last_detection s' = 1 \<and> self_last_ellipse s' \<noteq> None \<and>
           self_center s' \<noteq> None \<and> self_radius s' = Some (major_r (the (detection t))))"
  from assms have ?all

  proof (cases rule: track_frame_cases)
    case dropped
    then show ?thesis by (simp add: scored_def)
  next
    case low
    from preprocess_image_Inr(1,3) [OF low(2)] low show ?thesis
      by (simp add: scored_def)
  next
    case miss
    from preprocess_image_Inr(1,3) [OF miss(2)] get_pupil_Inr(1) [OF miss(4)] miss(1,3,5,6) show ?thesis
      by (simp add: scored_def)
  next
    case hit
    from preprocess_image_Inr(1,3) [OF hit(2)] get_pupil_Inr(1) [OF hit(4)] hit(1,3,5,6) show ?thesis
      by (simp add: scored_def detected_trace_simps)
  qed
  then show "self_params s' = self_params s"
    and "self_mask s' = self_mask s"
    and "frame_id t = n"
    and "ret rd \<Longrightarrow> frame_intensity t = Some (np_std (cvtColor cv (frame rd)))"
    and "\<not> scored cv (self_params s) rd \<Longrightarrow>
           detection t = None \<and> self_last_detection s' = self_last_detection s \<and>
           self_last_ellipse s' = self_last_ellipse s \<and> self_center s' = self_center s \<and>
           self_radius s' = self_radius s"
    and "scored cv (self_params s) rd \<Longrightarrow> detection t = None \<Longrightarrow>
           self_last_detection s' = self_last_detection s + 1 \<and> self_last_ellipse s' = None \<and>
           self_center s' = self_center s \<and> self_radius s' = self_radius s"
    and "detection t \<noteq> None \<Longrightarrow>
           scored cv (self_params s) rd \<and> self_last_detection s' = 1 \<and> self_last_ellipse s' \<noteq> None \<and>
           self_center s' \<noteq> None \<and> self_radius s' = Some (major_r (the (detection t)))"
    by blast+
qed

section \<open>The contrast gate\<close>

lemma frame_b_top:
  "track_frame cv_demo roi_top (small_mask_of tracker_demo roi_top) tracker_demo 1 (read_of frame_b) =
     Inr (tracker_demo\<lparr>self_last_detection := 2\<rparr>,
          \<lparr> frame_id = 1, frame_intensity = Some 1, detection = None \<rparr>)"
proof -
  have cr: "crop frame_b roi_top = [[0, 0, 0, 0], [0, 0, 0, 0]]"
    by (simp add: crop_def roi_top_def frame_b_def)
  have pre: "preprocess_image cv_demo tracker_demo frame_b roi_top =
      Inr (tracker_demo, frame_b, [[0, 0, 0, 0], [0, 0, 0, 0]], 1,
           [[0, 0, 0, 0], [0, 0, 0, 0]], [[0, 0, 0, 0], [0, 0, 0, 0]])"
    by (simp add: preprocess_image_def meso_step_def cv_demo_simps demo_params py_int_def Let_def cr demo_std)
  have sm: "small_mask_of tracker_demo roi_top = [[1, 1, 1, 1], [1, 1, 1, 1]]"
    by (simp add: small_mask_of_def tracker_demo_def roi_top_def np_ones_def eval_nat_numeral)
  have dc: "detect_contours cv_demo tracker_demo [[0, 0, 0, 0], [0, 0, 0, 0]] [[1, 1, 1, 1], [1, 1, 1, 1]] = []"
    by (simp add: detect_contours_def tracker_demo_def img_mul_def cv_demo_def)
  show ?thesis
    by (simp add: track_frame_def wk pre sm dc get_pupil_nil demo_params)
       (simp add: tracker_demo_def)
qed

text \<open>
  C6 (amended): the contrast signal is the standard deviation of the whole grayscale
  frame. On every frame that was read, the recorded frame intensity is \<open>np.std\<close> of the
  full grayscale frame, the frame is skipped exactly when that value is below
  \<open>contrast_threshold\<close>, and otherwise contour scoring runs; the region of interest plays
  no part in the gate.
\<close>

theorem contrast_gate_full_frame:
  assumes "ret rd" and "track_frame cv roi sm s n rd = Inr (s', t)"
  shows "frame_intensity t = Some (np_std (cvtColor cv (frame rd))) \<and>
    (np_std (cvtColor cv (frame rd)) < contrast_threshold (self_params s) \<longrightarrow>
       detection t = None \<and> self_last_detection s' = self_last_detection s \<and>
       self_last_ellipse s' = self_last_ellipse s) \<and>
    (\<not> np_std (cvtColor cv (frame rd)) < contrast_threshold (self_params s) \<longrightarrow>
       (detection t = None \<and> self_last_detection s' = self_last_detection s + 1 \<and>
          self_last_ellipse s' = None) \<or>
       (detection t \<noteq> None \<and> self_last_detection s' = 1 \<and> self_last_ellipse s' \<noteq> None))"
proof -
  note sm = track_frame_summary [OF assms(2)]
  have a: "frame_intensity t = Some (np_std (cvtColor cv (frame rd)))"
    using sm(4) assms(1) by simp
  have b: "detection t = None \<and> self_last_detection s' = self_last_detection s \<and>
       self_last_ellipse s' = self_last_ellipse s"
    if "np_std (cvtColor cv (frame rd)) < contrast_threshold (self_params s)"
    using sm(5) that by (simp add: scored_def)
  have c: "(detection t = None \<and> self_last_detection s' = self_last_detection s + 1 \<and>
          self_last_ellipse s' = None) \<or>
       (detection t \<noteq> None \<and> self_last_detection s' = 1 \<and> self_last_ellipse s' \<noteq> None)"
    if "\<not> np_std (cvtColor cv (frame rd)) < contrast_threshold (self_params s)"
  proof -
    from that assms(1) have sc: "scored cv (self_params s) rd" by (simp add: scored_def)
    show ?thesis
    proof (cases "detection t = None")
      case True
      with sm(6) [OF sc] show ?thesis by simp
    next
      case False
      with sm(7) show ?thesis by simp
    qed
  qed
  from a b c show ?thesis by blast
qed

theorem contrast_gate_full_frame_witness:
  "ret (read_of frame_b) \<and>
   track_frame cv_demo roi_top (small_mask_of tracker_demo roi_top) tracker_demo 1 (read_of frame_b) =
     Inr (tracker_demo\<lparr>self_last_detection := 2\<rparr>,
          \<lparr> frame_id = 1, frame_intensity = Some 1, detection = None \<rparr>) \<and>
   np_std (cvtColor cv_demo (frame (read_of frame_b))) = 1 \<and>
   \<not> np_std (cvtColor cv_demo (frame (read_of frame_b))) < contrast_threshold (self_params tracker_demo)"
  using contrast_gate_full_frame [OF wk(2) frame_b_top] frame_b_top
  by (simp add: wk cv_demo_simps demo_std demo_params)

text \<open>
  A frame whose region of interest has standard deviation \<open>0\<close>, below the threshold
  \<open>1/2\<close>, and which is scored all the same: the whole frame has standard deviation \<open>1\<close>,
  which is what the record holds, and the failure counter moves.
\<close>

theorem contrast_roi_counterexample:
  "np_std (crop (cvtColor cv_demo (frame (read_of frame_b))) roi_top) = 0 \<and>
   np_std (crop (cvtColor cv_demo (frame (read_of frame_b))) roi_top) < contrast_threshold params_demo \<and>
   self_params tracker_demo = params_demo \<and>
   track_frame cv_demo roi_top (small_mask_of tracker_demo roi_top) tracker_demo 1 (read_of frame_b) =
     Inr (tracker_demo\<lparr>self_last_detection := 2\<rparr>,
          \<lparr> frame_id = 1, frame_intensity = Some 1, detection = None \<rparr>) \<and>
   self_last_detection (tracker_demo\<lparr>self_last_detection := 2\<rparr>) \<noteq> self_last_detection tracker_demo"
proof -
  have "np_std (crop frame_b roi_top) = 0"
    by (simp add: crop_def roi_top_def frame_b_def np_std_def)
  with frame_b_top show ?thesis
    by (simp add: wk cv_demo_simps demo_params) (simp add: tracker_demo_def)
qed

section \<open>Runs of the frame loop\<close>

lemma track_loop_Cons_Inr:
  assumes "track_loop cv roi sm s n (rd # rest) = Inr (s', ts)"
  obtains s1 t ts' where "track_frame cv roi sm s (n + 1) rd = Inr (s1, t)"
    and "track_loop cv roi sm s1 (n + 1) rest = Inr (s', ts')" and "ts = t # ts'"
  using assms by (auto split: sum.splits)

lemma track_loop_length:
  "track_loop cv roi sm s n fs = Inr (s', ts) \<Longrightarrow> length ts = length fs"
proof (induction fs arbitrary: s n ts)
  case Nil
  then show ?case by simp
next
  case (Cons rd rest)
  from Cons.prems obtain s1 t ts' where "track_loop cv roi sm s1 (n + 1) rest = Inr (s', ts')" "ts = t # ts'"
    by (rule track_loop_Cons_Inr)
  with Cons.IH show ?case by simp
qed

lemma track_loop_params:
  "track_loop cv roi sm s n fs = Inr (s', ts) \<Longrightarrow> self_params s' = self_params s"
proof (induction fs arbitrary: s n ts)
  case Nil
  then show ?case by simp
next
  case (Cons rd rest)
  from Cons.prems obtain s1 t ts' where st: "track_frame cv roi sm s (n + 1) rd = Inr (s1, t)"
    and rest: "track_loop cv roi sm s1 (n + 1) rest = Inr (s', ts')"
    by (rule track_loop_Cons_Inr)
  from Cons.IH [OF rest] track_frame_summary(1) [OF st] show ?case by simp
qed

lemma track_loop_take:
  "track_loop cv roi sm s n fs = Inr (s', ts) \<Longrightarrow>
     \<exists>si. track_loop cv roi sm s n (take i fs) = Inr (si, take i ts)"
proof (induction fs arbitrary: s n ts i)
  case Nil
  then show ?case by simp
next
  case (Cons rd rest)
  from Cons.prems obtain s1 t ts' where st: "track_frame cv roi sm s (n + 1) rd = Inr (s1, t)"
    and rest: "track_loop cv roi sm s1 (n + 1) rest = Inr (s', ts')" and ts: "ts = t # ts'"
    by (rule track_loop_Cons_Inr)
  show ?case
  proof (cases i)
    case 0
    then show ?thesis by simp
  next
    case (Suc j)
    from Cons.IH [OF rest, of j] obtain si
      where "track_loop cv roi sm s1 (n + 1) (take j rest) = Inr (si, take j ts')" ..
    with st ts Suc show ?thesis by simp
  qed
qed

lemma track_frame_counter:
  assumes "track_frame cv roi sm s n rd = Inr (s', t)" and "scored cv (self_params s) rd"
  shows "self_last_detection s' = (if detection t = None then self_last_detection s + 1 else 1)"
  using track_frame_summary(6,7) [OF assms(1)] assms(2) by auto

lemma track_frame_counter_ge:
  assumes "track_frame cv roi sm s n rd = Inr (s', t)" and "1 \<le> self_last_detection s"
  shows "1 \<le> self_last_detection s'"
proof (cases "scored cv (self_params s) rd")
  case True
  from track_frame_counter [OF assms(1) True] assms(2) show ?thesis by (simp split: if_splits)
next
  case False
  from track_frame_summary(5) [OF assms(1) False] assms(2) show ?thesis by simp
qed

lemma track_loop_counter_ge:
  "track_loop cv roi sm s n fs = Inr (s', ts) \<Longrightarrow> 1 \<le> self_last_detection s \<Longrightarrow>
     1 \<le> self_last_detection s'"
proof (induction fs arbitrary: s n ts)
  case Nil
  then show ?case by simp
next
  case (Cons rd rest)
  from Cons.prems(1) obtain s1 t ts' where st: "track_frame cv roi sm s (n + 1) rd = Inr (s1, t)"
    and rest: "track_loop cv roi sm s1 (n + 1) rest = Inr (s', ts')"
    by (rule track_loop_Cons_Inr)
  from track_frame_counter_ge [OF st Cons.prems(2)] Cons.IH [OF rest] show ?case by simp
qed

lemma track_loop_failures:
  "track_loop cv roi sm s n fs = Inr (s', ts) \<Longrightarrow>
     \<forall>rd\<in>set fs. scored cv (self_params s) rd \<Longrightarrow> \<forall>t\<in>set ts. detection t = None \<Longrightarrow>
     self_last_detection s' = self_last_detection s + int (length fs)"
proof (induction fs arbitrary: s n ts)
  case Nil
  then show ?case by simp
next
  case (Cons rd rest)
  from Cons.prems(1) obtain s1 t ts' where st: "track_frame cv roi sm s (n + 1) rd = Inr (s1, t)"
    and rest: "track_loop cv roi sm s1 (n + 1) rest = Inr (s', ts')" and ts: "ts = t # ts'"
    by (rule track_loop_Cons_Inr)
  from Cons.prems(2) have sc: "scored cv (self_params s) rd" by simp
  from Cons.prems(3) ts have t: "detection t = None" and ts': "\<forall>t\<in>set ts'. detection t = None"
    by simp_all
  from track_frame_counter [OF st sc] t have one: "self_last_detection s1 = self_last_detection s + 1"
    by simp
  from Cons.prems(2) track_frame_summary(1) [OF st]
  have "\<forall>rd\<in>set rest. scored cv (self_params s1) rd" by simp
  from Cons.IH [OF rest this ts'] one show ?case by simp
qed

text \<open>
  C3: the counter \<open>_last_detection\<close> is 1 in a new tracker;
  \<open>get_pupil_from_contours\<close> sets it to 1 when it returns a best ellipse and adds 1
  when it returns none, and so does every frame on which scoring runs; along a run of
  scored frames without detection it is \<open>k + i\<close> after the \<open>i\<close>-th frame; and it never
  drops below 1.
\<close>

theorem failure_counter:
  fixes cv :: "'f cv2"
  shows "self_last_detection (projr (PupilTracker_init p m)) = 1 \<and>
    (\<forall>s cs sg msk s2 bc be.
        get_pupil_from_contours cv s cs sg msk = Inr (s2, bc, be) \<longrightarrow>
        self_last_detection s2 = (if be = None then self_last_detection s + 1 else 1)) \<and>
    (\<forall>s n rd s' t.
        track_frame cv roi sm s n rd = Inr (s', t) \<longrightarrow> scored cv (self_params s) rd \<longrightarrow>
        self_last_detection s' = (if detection t = None then self_last_detection s + 1 else 1)) \<and>
    (\<forall>s n fs s' ts.
        track_loop cv roi sm s n fs = Inr (s', ts) \<longrightarrow>
        (\<forall>rd\<in>set fs. scored cv (self_params s) rd) \<longrightarrow> (\<forall>t\<in>set ts. detection t = None) \<longrightarrow>
        (\<forall>i\<le>length fs. \<exists>si. track_loop cv roi sm s n (take i fs) = Inr (si, take i ts) \<and>
                              self_last_detection si = self_last_detection s + int i)) \<and>
    (\<forall>s n fs s' ts.
        track_loop cv roi sm s n fs = Inr (s', ts) \<longrightarrow> 1 \<le> self_last_detection s \<longrightarrow>
        1 \<le> self_last_detection s')"
proof (intro conjI allI impI)
  show "self_last_detection (projr (PupilTracker_init p m)) = 1"
    by (simp add: PupilTracker_init_def)
next
  fix s cs sg msk s2 bc be
  assume "get_pupil_from_contours cv s cs sg msk = Inr (s2, bc, be)"
  from get_pupil_Inr(1) [OF this]
  show "self_last_detection s2 = (if be = None then self_last_detection s + 1 else 1)"
    by simp
next
  fix s n rd s' t
  assume "track_frame cv roi sm s n rd = Inr (s', t)" "scored cv (self_params s) rd"
  then show "self_last_detection s' = (if detection t = None then self_last_detection s + 1 else 1)"
    by (rule track_frame_counter)
next
  fix s n fs s' ts i
  assume run: "track_loop cv roi sm s n fs = Inr (s', ts)"
    and sc: "\<forall>rd\<in>set fs. scored cv (self_params s) rd"
    and nd: "\<forall>t\<in>set ts. detection t = None"
    and i: "i \<le> length fs"
  from track_loop_take [OF run, of i] obtain si
    where pre: "track_loop cv roi sm s n (take i fs) = Inr (si, take i ts)" ..
  from sc have sc': "\<forall>rd\<in>set (take i fs). scored cv (self_params s) rd"
    by (meson in_set_takeD)
  from nd have nd': "\<forall>t\<in>set (take i ts). detection t = None"
    by (meson in_set_takeD)
  from track_loop_failures [OF pre sc' nd'] i
  have "self_last_detection si = self_last_detection s + int i"
    by simp
  with pre show "\<exists>si. track_loop cv roi sm s n (take i fs) = Inr (si, take i ts) \<and>
                       self_last_detection si = self_last_detection s + int i"
    by blast
next
  fix s n fs s' ts
  assume "track_loop cv roi sm s n fs = Inr (s', ts)" "1 \<le> self_last_detection s"
  then show "1 \<le> self_last_detection s'"
    by (rule track_loop_counter_ge)
qed

lemma run_bb:
  "track_loop cv_demo roi_demo ones_demo tracker_found 0 [read_of frame_b, read_of frame_b] =
     Inr (tracker_found\<lparr>self_last_detection := 3, self_last_ellipse := None\<rparr>,
          [\<lparr> frame_id = 1, frame_intensity = Some 1, detection = None \<rparr>,
           \<lparr> frame_id = 2, frame_intensity = Some 1, detection = None \<rparr>])"
  by (simp add: frame_b_fails demo_params) (simp add: tracker_found_def tracker_demo_def)

lemma scored_demo:
  "scored cv_demo params_demo (read_of frame_a)" "scored cv_demo params_demo (read_of frame_b)"
  "\<not> scored cv_demo params_demo (read_of frame_dark)"
  by (simp_all add: scored_def wk cv_demo_simps demo_std demo_params)

theorem failure_counter_witness:
  "self_last_detection (projr (PupilTracker_init params_demo None)) = 1 \<and>
   scored cv_demo (self_params tracker_found) (read_of frame_b) \<and>
   track_loop cv_demo roi_demo ones_demo tracker_found 0 [read_of frame_b, read_of frame_b] =
     Inr (tracker_found\<lparr>self_last_detection := 3, self_last_ellipse := None\<rparr>,
          [\<lparr> frame_id = 1, frame_intensity = Some 1, detection = None \<rparr>,
           \<lparr> frame_id = 2, frame_intensity = Some 1, detection = None \<rparr>]) \<and>
   self_last_detection tracker_found = 1 \<and>
   (\<exists>si. track_loop cv_demo roi_demo ones_demo tracker_found 0 [read_of frame_b] =
            Inr (si, [\<lparr> frame_id = 1, frame_intensity = Some 1, detection = None \<rparr>]) \<and>
         self_last_detection si = 2) \<and>
   (\<exists>si. track_loop cv_demo roi_demo ones_demo tracker_found 0 [read_of frame_b, read_of frame_b] =
            Inr (si, [\<lparr> frame_id = 1, frame_intensity = Some 1, detection = None \<rparr>,
                      \<lparr> frame_id = 2, frame_intensity = Some 1, detection = None \<rparr>]) \<and>
         self_last_detection si = 3)"
proof -
  note T = failure_counter [of params_demo None cv_demo roi_demo ones_demo]
  have sc: "\<And>rd. rd \<in> set [read_of frame_b, read_of frame_b] \<Longrightarrow> scored cv_demo (self_params tracker_found) rd"
    by (auto simp: demo_params scored_demo)
  have nd: "\<And>t. t \<in> set [\<lparr> frame_id = 1, frame_intensity = Some 1, detection = None \<rparr>,
           \<lparr> frame_id = 2, frame_intensity = Some (1::real), detection = None \<rparr>] \<Longrightarrow> detection t = None"
    by auto
  note R = T [THEN conjunct2, THEN conjunct2, THEN conjunct2, THEN conjunct1, rule_format, OF run_bb sc nd]
  have one: "self_last_detection tracker_found = 1"
    by (simp add: tracker_found_def tracker_demo_def)
  from R [of 1] R [of 2] T [THEN conjunct1] one run_bb show ?thesis
    by (simp add: demo_params scored_demo)
qed

section \<open>Scored candidates\<close>

lemma score_contour_Some:
  assumes "score_contour cv s sg msk cnt0 = Inr (Some cand)"
  shows "restrict_to_mask (erode cv msk) cnt0 = Inr (cand_contour cand)"
    and "5 \<le> length (cand_contour cand)"
    and "cand_ellipse cand = fitEllipse cv (cand_contour cand)"
    and "goodness_of_fit (cand_contour cand) (cand_ellipse cand) = Inr (cand_rmse cand)"
    and "min (fst (fst (snd (cand_ellipse cand)))) (snd (fst (snd (cand_ellipse cand)))) \<noteq> 0"
    and "cand_conditions cand =
           conditions s
             (max (fst (fst (snd (cand_ellipse cand)))) (snd (fst (snd (cand_ellipse cand))))
                / min (fst (fst (snd (cand_ellipse cand)))) (snd (fst (snd (cand_ellipse cand)))))
             (relative_area (fst (snd (cand_ellipse cand))) (np_shape sg))
             (cand_rmse cand)
             (fst (fst (cand_ellipse cand)) / real (snd (np_shape sg)),
              snd (fst (cand_ellipse cand)) / real (fst (np_shape sg)))
             (cand_dx s (fst (fst (cand_ellipse cand)) / real (snd (np_shape sg)),
                         snd (fst (cand_ellipse cand)) / real (fst (np_shape sg))))
             (cand_dr s (max (fst (fst (snd (cand_ellipse cand)))) (snd (fst (snd (cand_ellipse cand))))))"
  using assms
  by (auto simp: score_contour_def Let_def cand_contour_def cand_ellipse_def cand_rmse_def
      cand_conditions_def split: sum.splits if_splits prod.splits)

lemma conditions_nth:
  "conditions s ratio area err c dx dr ! 1 = (relative_area_threshold (self_params s) \<le> area)"
  "conditions s ratio area err c dx dr ! 5 =
     (dx < speed_threshold (self_params s) * real_of_int (self_last_detection s))"
  "conditions s ratio area err c dx dr ! 6 =
     (dr < dr_threshold (self_params s) * real_of_int (self_last_detection s))"
  by (simp_all add: conditions_def Let_def)

section \<open>Continuity anchors\<close>

lemma track_frame_anchor_hit:
  assumes "track_frame cv roi sm s n rd = Inr (s', t)" and "detection t \<noteq> None"
  shows "\<exists>s1 gray sg std thres blur.
           preprocess_image cv s (frame rd) roi = Inr (s1, gray, sg, std, thres, blur) \<and>
           self_center s' = Some (rotated_rect (the (detection t)) ! 0 / real (snd (np_shape sg)),
                                  rotated_rect (the (detection t)) ! 1 / real (fst (np_shape sg)))"
  using assms(1)
proof (cases rule: track_frame_cases)
  case dropped
  with assms(2) show ?thesis by simp
next
  case low
  with assms(2) show ?thesis by simp
next
  case miss
  with assms(2) show ?thesis by simp
next
  case (hit s1 gray sg std thres blur s2 c e)
  then show ?thesis by (simp add: detected_trace_simps)
qed

lemma track_frame_anchor_keep:
  assumes "track_frame cv roi sm s n rd = Inr (s', t)" and "detection t = None"
  shows "self_center s' = self_center s \<and> self_radius s' = self_radius s"
  using track_frame_summary(5,6) [OF assms(1)] assms(2) by blast

lemma track_loop_anchor:
  "track_loop cv roi sm s n fs = Inr (s', ts) \<Longrightarrow>
     (if \<exists>t\<in>set ts. detection t \<noteq> None
      then self_center s' \<noteq> None \<and>
           self_radius s' = Some (major_r (the (detection (last (filter (\<lambda>t. detection t \<noteq> None) ts)))))
      else self_center s' = self_center s \<and> self_radius s' = self_radius s)"
proof (induction fs arbitrary: s n ts)
  case Nil
  then show ?case by simp
next
  case (Cons rd rest)
  from Cons.prems obtain s1 t ts' where st: "track_frame cv roi sm s (n + 1) rd = Inr (s1, t)"
    and rest: "track_loop cv roi sm s1 (n + 1) rest = Inr (s', ts')" and ts: "ts = t # ts'"
    by (rule track_loop_Cons_Inr)
  note IH = Cons.IH [OF rest]
  show ?case
  proof (cases "\<exists>u\<in>set ts'. detection u \<noteq> None")
    case True
    then have "filter (\<lambda>t. detection t \<noteq> None) ts' \<noteq> []"
      by (simp add: filter_empty_conv)
    with True IH ts show ?thesis by simp
  next
    case False
    then have empty: "filter (\<lambda>t. detection t \<noteq> None) ts' = []"
      by (simp add: filter_empty_conv)
    from False IH have keep: "self_center s' = self_center s1" "self_radius s' = self_radius s1"
      by simp_all
    show ?thesis
    proof (cases "detection t = None")
      case True
      with track_frame_anchor_keep [OF st] keep False ts show ?thesis by simp
    next
      case hit: False
      from track_frame_summary(7) [OF st hit] keep empty hit ts show ?thesis by simp
    qed
  qed
qed

text \<open>
  C10: \<open>_center\<close> and \<open>_radius\<close> are written only by a detection. A frame without
  detection leaves both as they are, also when it sets \<open>_last_ellipse\<close> to \<open>None\<close>;
  a detection sets them to the normalised centre and the larger axis of the winning
  ellipse. Hence a run without detection keeps them, and after a run with a detection
  they are set and hold the values of the most recent one. Scoring computes \<open>dx\<close> and
  \<open>dr\<close> of every candidate from these two fields and does not read \<open>_last_ellipse\<close>.
\<close>

theorem anchors_persist:
  fixes cv :: "'f cv2"
  shows
   "(\<forall>s n rd s' t.
        track_frame cv roi sm s n rd = Inr (s', t) \<longrightarrow> detection t = None \<longrightarrow>
        self_center s' = self_center s \<and> self_radius s' = self_radius s) \<and>
    (\<forall>s n rd s' t.
        track_frame cv roi sm s n rd = Inr (s', t) \<longrightarrow> detection t \<noteq> None \<longrightarrow>
        self_radius s' = Some (major_r (the (detection t))) \<and>
        (\<exists>s1 gray sg std thres blur.
           preprocess_image cv s (frame rd) roi = Inr (s1, gray, sg, std, thres, blur) \<and>
           self_center s' = Some (rotated_rect (the (detection t)) ! 0 / real (snd (np_shape sg)),
                                  rotated_rect (the (detection t)) ! 1 / real (fst (np_shape sg))))) \<and>
    (\<forall>s n fs s' ts.
        track_loop cv roi sm s n fs = Inr (s', ts) \<longrightarrow> (\<forall>t\<in>set ts. detection t = None) \<longrightarrow>
        self_center s' = self_center s \<and> self_radius s' = self_radius s) \<and>
    (\<forall>s n fs s' ts.
        track_loop cv roi sm s n fs = Inr (s', ts) \<longrightarrow> (\<exists>t\<in>set ts. detection t \<noteq> None) \<longrightarrow>
        self_center s' \<noteq> None \<and>
        self_radius s' = Some (major_r (the (detection (last (filter (\<lambda>t. detection t \<noteq> None) ts)))))) \<and>
    (\<forall>s n fs s' ts.
        track_loop cv roi sm s n fs = Inr (s', ts) \<longrightarrow>
        self_center s \<noteq> None \<and> self_radius s \<noteq> None \<longrightarrow>
        self_center s' \<noteq> None \<and> self_radius s' \<noteq> None) \<and>
    (\<forall>s sg msk cnt cand c r.
        score_contour cv s sg msk cnt = Inr (Some cand) \<longrightarrow>
        self_center s = Some c \<longrightarrow> self_radius s = Some r \<longrightarrow>
        cand_conditions cand ! 5 =
          (sqrt ((fst (fst (cand_ellipse cand)) / real (snd (np_shape sg)) - fst c)\<^sup>2 +
                 (snd (fst (cand_ellipse cand)) / real (fst (np_shape sg)) - snd c)\<^sup>2)
             < speed_threshold (self_params s) * real_of_int (self_last_detection s)) \<and>
        cand_conditions cand ! 6 =
          (\<bar>max (fst (fst (snd (cand_ellipse cand)))) (snd (fst (snd (cand_ellipse cand)))) - r\<bar> / r
             < dr_threshold (self_params s) * real_of_int (self_last_detection s)))"
proof (intro conjI allI impI)
  fix s n rd s' t
  assume "track_frame cv roi sm s n rd = Inr (s', t)" "detection t = None"
  from track_frame_anchor_keep [OF this]
  show "self_center s' = self_center s" "self_radius s' = self_radius s"
    by simp_all
next
  fix s n rd s' t
  assume st: "track_frame cv roi sm s n rd = Inr (s', t)" and hit: "detection t \<noteq> None"
  from track_frame_summary(7) [OF st hit]
  show "self_radius s' = Some (major_r (the (detection t)))" by simp
  from track_frame_anchor_hit [OF st hit]
  show "\<exists>s1 gray sg std thres blur.
           preprocess_image cv s (frame rd) roi = Inr (s1, gray, sg, std, thres, blur) \<and>
           self_center s' = Some (rotated_rect (the (detection t)) ! 0 / real (snd (np_shape sg)),
                                  rotated_rect (the (detection t)) ! 1 / real (fst (np_shape sg)))" .
next
  fix s n fs s' ts
  assume run: "track_loop cv roi sm s n fs = Inr (s', ts)" and "\<forall>t\<in>set ts. detection t = None"
  with track_loop_anchor [OF run]
  show "self_center s' = self_center s" "self_radius s' = self_radius s"
    by simp_all
next
  fix s n fs s' ts
  assume run: "track_loop cv roi sm s n fs = Inr (s', ts)" and "\<exists>t\<in>set ts. detection t \<noteq> None"
  with track_loop_anchor [OF run]
  show "self_center s' \<noteq> None"
    "self_radius s' = Some (major_r (the (detection (last (filter (\<lambda>t. detection t \<noteq> None) ts)))))"
    by simp_all
next
  fix s n fs s' ts
  assume run: "track_loop cv roi sm s n fs = Inr (s', ts)"
    and set: "self_center s \<noteq> None \<and> self_radius s \<noteq> None"
  with track_loop_anchor [OF run]
  show "self_center s' \<noteq> None" "self_radius s' \<noteq> None"
    by (simp_all split: if_splits)
next
  fix s sg msk cnt cand c r
  assume sc: "score_contour cv s sg msk cnt = Inr (Some cand)"
    and c: "self_center s = Some c" and r: "self_radius s = Some r"
  from score_contour_Some(6) [OF sc] c r
  show "cand_conditions cand ! 5 =
          (sqrt ((fst (fst (cand_ellipse cand)) / real (snd (np_shape sg)) - fst c)\<^sup>2 +
                 (snd (fst (cand_ellipse cand)) / real (fst (np_shape sg)) - snd c)\<^sup>2)
             < speed_threshold (self_params s) * real_of_int (self_last_detection s))"
    and "cand_conditions cand ! 6 =
          (\<bar>max (fst (fst (snd (cand_ellipse cand)))) (snd (fst (snd (cand_ellipse cand)))) - r\<bar> / r
             < dr_threshold (self_params s) * real_of_int (self_last_detection s))"
    by (simp_all add: conditions_nth cand_dx_def cand_dr_def)
qed

lemma run_ab:
  "track_loop cv_demo roi_demo ones_demo tracker_demo 0 [read_of frame_a, read_of frame_b] =
     Inr (tracker_found\<lparr>self_last_detection := 2, self_last_ellipse := None\<rparr>,
          [detected_trace roi_demo 1 1 contour_a ellipse_a,
           \<lparr> frame_id = 2, frame_intensity = Some 1, detection = None \<rparr>])"
proof -
  have a: "track_frame cv_demo roi_demo ones_demo tracker_demo 1 (read_of frame_a) =
      Inr (tracker_found, detected_trace roi_demo 1 1 contour_a ellipse_a)"
    using frame_a_found [of tracker_demo 1]
    by (simp add: demo_params) (simp add: tracker_found_def tracker_demo_def)
  have b: "track_frame cv_demo roi_demo ones_demo tracker_found 2 (read_of frame_b) =
      Inr (tracker_found\<lparr>self_last_detection := 2, self_last_ellipse := None\<rparr>,
           \<lparr> frame_id = 2, frame_intensity = Some 1, detection = None \<rparr>)"
    using frame_b_fails [OF demo_params(2), of 2]
    by (simp add: tracker_found_def tracker_demo_def)
  show ?thesis by (simp add: a b)
qed

theorem anchors_persist_witness:
  "track_loop cv_demo roi_demo ones_demo tracker_demo 0 [read_of frame_a, read_of frame_b] =
     Inr (tracker_found\<lparr>self_last_detection := 2, self_last_ellipse := None\<rparr>,
          [detected_trace roi_demo 1 1 contour_a ellipse_a,
           \<lparr> frame_id = 2, frame_intensity = Some 1, detection = None \<rparr>]) \<and>
   detection (detected_trace roi_demo 1 1 contour_a ellipse_a) \<noteq> None \<and>
   self_last_ellipse (tracker_found\<lparr>self_last_detection := 2, self_last_ellipse := None\<rparr>) = None \<and>
   self_center (tracker_found\<lparr>self_last_detection := 2, self_last_ellipse := None\<rparr>) \<noteq> None \<and>
   self_radius (tracker_found\<lparr>self_last_detection := 2, self_last_ellipse := None\<rparr>) =
     Some (major_r (the (detection (detected_trace roi_demo 1 1 contour_a ellipse_a)))) \<and>
   major_r (the (detection (detected_trace roi_demo 1 1 contour_a ellipse_a))) = 2"
proof -
  note T = anchors_persist [of cv_demo roi_demo ones_demo]
  have ex: "\<exists>t\<in>set [detected_trace roi_demo 1 1 contour_a ellipse_a,
           \<lparr> frame_id = 2, frame_intensity = Some 1, detection = None \<rparr>]. detection t \<noteq> None"
    using detected_trace_simps(3) [of roi_demo 1 1 contour_a ellipse_a] by auto
  from T [THEN conjunct2, THEN conjunct2, THEN conjunct2, THEN conjunct1, rule_format, OF run_ab ex]
    run_ab detected_trace_simps(3) [of roi_demo 1 1 contour_a ellipse_a]
  show ?thesis
    by (auto simp: detected_trace_simps(4) ellipse_a_def)
qed

section \<open>Relative area\<close>

text \<open>
  C5 (amended): for every scored candidate, the relative area tested against
  \<open>relative_area_threshold\<close> is the product of the two size components of the fitted
  ellipse divided by the number of pixels of the crop, that is the area of the enclosing
  rotated rectangle over the crop area; it is \<open>4 / \<pi>\<close> times the geometric ellipse
  area over the crop area.
\<close>

theorem relative_area_is_rectangle:
  assumes "score_contour cv s sg msk cnt = Inr (Some cand)"
  shows "cand_conditions cand ! 1 =
           (relative_area_threshold (self_params s)
              \<le> fst (fst (snd (cand_ellipse cand))) * snd (fst (snd (cand_ellipse cand)))
                  / real (fst (np_shape sg) * snd (np_shape sg))) \<and>
         fst (fst (snd (cand_ellipse cand))) * snd (fst (snd (cand_ellipse cand)))
             / real (fst (np_shape sg) * snd (np_shape sg))
           = 4 / pi * spec_relative_area (fst (snd (cand_ellipse cand))) (np_shape sg)"
proof -
  have "cand_conditions cand ! 1 =
      (relative_area_threshold (self_params s)
         \<le> relative_area (fst (snd (cand_ellipse cand))) (np_shape sg))"
    unfolding score_contour_Some(6) [OF assms] by (rule conditions_nth(1))
  moreover have "relative_area axes shp = 4 / pi * spec_relative_area axes shp" for axes shp
    by (simp add: relative_area_def spec_relative_area_def)
  ultimately show ?thesis
    by (simp add: relative_area_def)
qed

lemma score_a_demo:
  "score_contour cv_demo tracker_demo frame_a ones_demo contour_a =
     Inr (Some (contour_a, ellipse_a, 0, [True, True, True, True, True, True, True]))"
  by (rule score_a) (simp_all add: demo_params demo_shape, simp_all add: tracker_demo_def)

theorem relative_area_is_rectangle_witness:
  "score_contour cv_demo tracker_demo frame_a ones_demo contour_a =
     Inr (Some (contour_a, ellipse_a, 0, [True, True, True, True, True, True, True])) \<and>
   [True, True, True, True, True, True, True] ! 1 =
     (relative_area_threshold (self_params tracker_demo) \<le> 2 * 2 / real (4 * 4)) \<and>
   (2 * 2 / real (4 * 4) = 4 / pi * spec_relative_area (2, 2) (4, 4))"
  using relative_area_is_rectangle [OF score_a_demo] score_a_demo
  by (simp add: cand_conditions_def cand_ellipse_def ellipse_a_def demo_shape demo_params params_demo_def)

text \<open>
  A candidate the code accepts on area, with relative area \<open>1/4\<close> at threshold \<open>1/4\<close>,
  whose geometric ellipse area over the crop area is \<open>\<pi> / 16\<close>, below the threshold.
\<close>

theorem relative_area_counterexample:
  "score_contour cv_demo tracker_demo frame_a ones_demo contour_a =
     Inr (Some (contour_a, ellipse_a, 0, [True, True, True, True, True, True, True])) \<and>
   relative_area_threshold (self_params tracker_demo) = 1 / 4 \<and>
   relative_area (fst (snd ellipse_a)) (np_shape frame_a) = 1 / 4 \<and>
   spec_relative_area (fst (snd ellipse_a)) (np_shape frame_a) = pi / 16 \<and>
   spec_relative_area (fst (snd ellipse_a)) (np_shape frame_a)
     < relative_area_threshold (self_params tracker_demo)"
  using pi_less_4 score_a_demo
  by (simp add: relative_area_def spec_relative_area_def ellipse_a_def demo_shape demo_params params_demo_def)

section \<open>Selection of the best candidate\<close>

lemma contour_loop_pick:
  "candidates cv s sg msk cs = Inr cands \<Longrightarrow>
     contour_loop cv s sg msk cs acc = Inr (pick (filter full_match cands) acc)"
proof (induction cs arbitrary: cands acc)
  case Nil
  then show ?case by simp
next
  case (Cons c cs)
  from Cons.prems obtain sc rest where sc: "score_contour cv s sg msk c = Inr sc"
    and rest: "candidates cv s sg msk cs = Inr rest"
    and cands: "cands = (case sc of None \<Rightarrow> [] | Some x \<Rightarrow> [x]) @ rest"
    by (auto split: sum.splits)
  note IH = Cons.IH [OF rest]
  show ?case
  proof (cases sc)
    case None
    with sc cands IH [of acc] show ?thesis by simp
  next
    case (Some cand)
    show ?thesis
    proof (cases "full_match cand")
      case True
      with Some sc cands IH [of "acc_of cand"] IH [of acc] show ?thesis
        by (simp add: full_match_def acc_of_def)
    next
      case False
      with Some sc cands IH [of acc] show ?thesis
        by (simp add: full_match_def)
    qed
  qed
qed

lemma contour_loop_error:
  "candidates cv s sg msk cs = Inl e \<Longrightarrow> contour_loop cv s sg msk cs acc = Inl e"
proof (induction cs arbitrary: acc)
  case Nil
  then show ?case by simp
next
  case (Cons c cs)
  show ?case
  proof (cases "score_contour cv s sg msk c")
    case (Inl e')
    with Cons.prems show ?thesis by simp
  next
    case (Inr sc)
    with Cons.prems have "candidates cv s sg msk cs = Inl e"
      by (auto split: sum.splits)
    from Cons.IH [OF this] Inr show ?thesis
      by (simp split: option.splits)
  qed
qed

lemma pick_first_min:
  "\<exists>pre w post. c # cs = pre @ w # post \<and> pick cs (acc_of c) = acc_of w \<and>
     (\<forall>x\<in>set pre. cand_rmse w < cand_rmse x) \<and> (\<forall>x\<in>set post. cand_rmse w \<le> cand_rmse x)"
proof (induction cs arbitrary: c)
  case Nil
  show ?case
    by (rule exI [of _ "[]"], rule exI [of _ c], rule exI [of _ "[]"]) simp
next
  case (Cons d cs)
  show ?case
  proof (cases "cand_rmse d < cand_rmse c")
    case True
    from Cons.IH [of d] obtain pre w post where dec: "d # cs = pre @ w # post"
      and res: "pick cs (acc_of d) = acc_of w"
      and lt: "\<forall>x\<in>set pre. cand_rmse w < cand_rmse x"
      and le: "\<forall>x\<in>set post. cand_rmse w \<le> cand_rmse x"
      by blast
    have "cand_rmse w \<le> cand_rmse d"
    proof (cases pre)
      case Nil
      with dec show ?thesis by simp
    next
      case (Cons p pre')
      with dec have "d \<in> set pre" by simp
      with lt show ?thesis by force
    qed
    with True have wc: "cand_rmse w < cand_rmse c" by simp
    have "c # d # cs = (c # pre) @ w # post" using dec by simp
    moreover have "pick (d # cs) (acc_of c) = acc_of w"
      using True res by (simp add: below_def acc_of_def)
    moreover have "\<forall>x\<in>set (c # pre). cand_rmse w < cand_rmse x"
      using wc lt by simp
    ultimately show ?thesis using le by blast
  next
    case False
    from Cons.IH [of c] obtain pre w post where dec: "c # cs = pre @ w # post"
      and res: "pick cs (acc_of c) = acc_of w"
      and lt: "\<forall>x\<in>set pre. cand_rmse w < cand_rmse x"
      and le: "\<forall>x\<in>set post. cand_rmse w \<le> cand_rmse x"
      by blast
    have pk: "pick (d # cs) (acc_of c) = acc_of w"
      using False res by (simp add: below_def acc_of_def)
    show ?thesis
    proof (cases pre)
      case Nil
      with dec have w: "w = c" and post: "post = cs" by simp_all
      have "c # d # cs = [] @ w # (d # cs)" using w by simp
      moreover have "\<forall>x\<in>set (d # cs). cand_rmse w \<le> cand_rmse x"
        using False le w post by auto
      ultimately show ?thesis using pk
        by (intro exI [of _ "[]"] exI [of _ w] exI [of _ "d # cs"]) simp
    next
      case (Cons p pre')
      with dec have p: "p = c" and cs: "cs = pre' @ w # post" by simp_all
      from lt Cons p have wc: "cand_rmse w < cand_rmse c" by simp
      with False have wd: "cand_rmse w < cand_rmse d" by simp
      have "c # d # cs = (c # d # pre') @ w # post" using cs by simp
      moreover have "\<forall>x\<in>set (c # d # pre'). cand_rmse w < cand_rmse x"
        using wc wd lt Cons by simp
      ultimately show ?thesis using pk le by blast
    qed
  qed
qed

lemma pick_from_start:
  "pick [] (None, None, None) = (None, None, None)"
  "pick (c # cs) (None, None, None) = pick cs (acc_of c)"
  by (simp_all add: below_def)

text \<open>
  C2: when scoring raises no exception, \<open>get_pupil_from_contours\<close> returns; if no scored
  candidate meets all seven conditions it returns \<open>(None, None)\<close>; otherwise it returns
  the contour and ellipse of a full-match candidate \<open>w\<close> whose rmse is strictly below
  that of every full-match candidate evaluated before it and at most that of every one
  evaluated after it: the earliest candidate of minimal rmse. An exception raised while
  scoring is raised by the function.
\<close>

theorem best_of_selection:
  fixes cv :: "'f cv2"
  shows
   "(\<forall>cands. candidates cv s sg msk cs = Inr cands \<longrightarrow>
       (\<exists>s' bc be. get_pupil_from_contours cv s cs sg msk = Inr (s', bc, be) \<and>
          (filter full_match cands = [] \<longrightarrow> bc = None \<and> be = None) \<and>
          (filter full_match cands \<noteq> [] \<longrightarrow>
             (\<exists>pre w post. filter full_match cands = pre @ w # post \<and>
                bc = Some (cand_contour w) \<and> be = Some (cand_ellipse w) \<and>
                (\<forall>x\<in>set pre. cand_rmse w < cand_rmse x) \<and>
                (\<forall>x\<in>set post. cand_rmse w \<le> cand_rmse x))))) \<and>
    (\<forall>e. candidates cv s sg msk cs = Inl e \<longrightarrow> get_pupil_from_contours cv s cs sg msk = Inl e)"
proof (intro conjI allI impI)
  fix cands
  assume c: "candidates cv s sg msk cs = Inr cands"
  note loop = contour_loop_pick [OF c, of "(None, None, None)"]
  show "\<exists>s' bc be. get_pupil_from_contours cv s cs sg msk = Inr (s', bc, be) \<and>
          (filter full_match cands = [] \<longrightarrow> bc = None \<and> be = None) \<and>
          (filter full_match cands \<noteq> [] \<longrightarrow>
             (\<exists>pre w post. filter full_match cands = pre @ w # post \<and>
                bc = Some (cand_contour w) \<and> be = Some (cand_ellipse w) \<and>
                (\<forall>x\<in>set pre. cand_rmse w < cand_rmse x) \<and>
                (\<forall>x\<in>set post. cand_rmse w \<le> cand_rmse x)))"
  proof (cases "filter full_match cands")
    case Nil
    with loop show ?thesis
      by (simp add: get_pupil_from_contours_def)
  next
    case (Cons f fs)
    from pick_first_min [of f fs] obtain pre w post where dec: "f # fs = pre @ w # post"
      and res: "pick fs (acc_of f) = acc_of w"
      and lt: "\<forall>x\<in>set pre. cand_rmse w < cand_rmse x"
      and le: "\<forall>x\<in>set post. cand_rmse w \<le> cand_rmse x"
      by blast
    from loop Cons res
    have "contour_loop cv s sg msk cs (None, None, None) = Inr (acc_of w)"
      by (simp add: below_def)
    then have gp: "get_pupil_from_contours cv s cs sg msk =
        Inr (s\<lparr>self_last_detection := 1\<rparr>, Some (cand_contour w), Some (cand_ellipse w))"
      by (simp add: get_pupil_from_contours_def acc_of_def)
    have inner: "\<exists>pre w' post. filter full_match cands = pre @ w' # post \<and>
                Some (cand_contour w) = Some (cand_contour w') \<and>
                Some (cand_ellipse w) = Some (cand_ellipse w') \<and>
                (\<forall>x\<in>set pre. cand_rmse w' < cand_rmse x) \<and>
                (\<forall>x\<in>set post. cand_rmse w' \<le> cand_rmse x)"
      using Cons dec lt le
      by (intro exI [of _ pre] exI [of _ w] exI [of _ post]) simp
    from gp inner Cons show ?thesis
      by (intro exI [of _ "s\<lparr>self_last_detection := 1\<rparr>"] exI [of _ "Some (cand_contour w)"]
          exI [of _ "Some (cand_ellipse w)"]) simp
  qed
next
  fix e
  assume "candidates cv s sg msk cs = Inl e"
  from contour_loop_error [OF this]
  show "get_pupil_from_contours cv s cs sg msk = Inl e"
    by (simp add: get_pupil_from_contours_def)
qed

lemma gof_b: "goodness_of_fit contour_b ellipse_b = Inr (sqrt (17 / 640))"
  by (simp add: goodness_of_fit_def gof_body_def astype_float_def contour_b_def ellipse_b_def power2_eq_square)

lemma score_b_demo:
  "score_contour cv_demo tracker_demo frame_a ones_demo contour_b =
     Inr (Some (contour_b, ellipse_b, sqrt (17 / 640), [True, True, True, True, True, True, True]))"
proof -
  have dx: "cand_dx tracker_demo (1 / 4, 1 / 2) = 0" and dr: "cand_dr tracker_demo 4 = 0"
    by (simp_all add: cand_dx_def cand_dr_def tracker_demo_def)
  have conds: "conditions tracker_demo 2 (1 / 2) (sqrt (17 / 640)) (1 / 4, 1 / 2) 0 0 =
      [True, True, True, True, True, True, True]"
    by (simp add: conditions_def tracker_demo_def params_demo_def)
  have "score_contour cv_demo tracker_demo frame_a ones_demo contour_b =
     Inr (Some (contour_b, ellipse_b, sqrt (17 / 640),
          conditions tracker_demo 2 (1 / 2) (sqrt (17 / 640)) (1 / 4, 1 / 2) 0 0))"
    by (simp add: score_contour_def cv_demo_simps restrict_demo len_demo demo_params demo_shape Let_def)
       (simp add: ellipse_b_def gof_b [unfolded ellipse_b_def] relative_area_def dx dr demo_shape)
  then show ?thesis by (simp add: conds)
qed

lemma candidates_demo:
  "candidates cv_demo tracker_demo frame_a ones_demo [contour_b, contour_a] =
     Inr [(contour_b, ellipse_b, sqrt (17 / 640), [True, True, True, True, True, True, True]),
          (contour_a, ellipse_a, 0, [True, True, True, True, True, True, True])]"
  by (simp add: score_a_demo score_b_demo)

theorem best_of_selection_witness:
  "candidates cv_demo tracker_demo frame_a ones_demo [contour_b, contour_a] =
     Inr [(contour_b, ellipse_b, sqrt (17 / 640), [True, True, True, True, True, True, True]),
          (contour_a, ellipse_a, 0, [True, True, True, True, True, True, True])] \<and>
   match_count (contour_b, ellipse_b, sqrt (17 / 640), [True, True, True, True, True, True, True]) = 7 \<and>
   match_count (contour_a, ellipse_a, 0, [True, True, True, True, True, True, True]) = 7 \<and>
   (\<exists>s'. get_pupil_from_contours cv_demo tracker_demo [contour_b, contour_a] frame_a ones_demo =
      Inr (s', Some contour_a, Some ellipse_a))"
proof -
  let ?cb = "(contour_b, ellipse_b, sqrt (17 / 640), [True, True, True, True, True, True, True])"
  let ?ca = "(contour_a, ellipse_a, 0::real, [True, True, True, True, True, True, True])"
  have fm: "match_count ?cb = 7" "match_count ?ca = 7"
    by (simp_all add: match_count_def matching_conditions_def cand_conditions_def)
  then have fl: "filter full_match [?cb, ?ca] = [?cb, ?ca]"
    by (simp add: full_match_def)
  from best_of_selection [of cv_demo tracker_demo frame_a ones_demo "[contour_b, contour_a]",
      THEN conjunct1, rule_format, OF candidates_demo]
  obtain s' bc be pre w post
    where gp: "get_pupil_from_contours cv_demo tracker_demo [contour_b, contour_a] frame_a ones_demo =
        Inr (s', bc, be)"
      and dec: "[?cb, ?ca] = pre @ w # post"
      and bc: "bc = Some (cand_contour w)" and be: "be = Some (cand_ellipse w)"
      and le: "\<forall>x\<in>set post. cand_rmse w \<le> cand_rmse x"
    unfolding fl by blast
  have "w = ?ca"
  proof (cases pre)
    case Nil
    with dec have "w = ?cb" "?ca \<in> set post" by auto
    with le have "sqrt (17 / 640) \<le> (0::real)" by (force simp: cand_rmse_def)
    then show ?thesis by simp
  next
    case (Cons p pre')
    with dec have "[?ca] = pre' @ w # post" by simp
    then show ?thesis by (simp add: Cons_eq_append_conv)
  qed
  with gp bc be have "get_pupil_from_contours cv_demo tracker_demo [contour_b, contour_a] frame_a ones_demo =
      Inr (s', Some contour_a, Some ellipse_a)"
    by (simp add: cand_contour_def cand_ellipse_def)
  with candidates_demo fm show ?thesis by blast
qed

section \<open>The running-average mode\<close>

lemma running_avg_update_nth:
  assumes "i < length img" "i < length R" "j < length (img ! i)" "j < length (R ! i)"
  shows "running_avg_update c p img R ! i ! j =
           c * (real (unat (img ! i ! j)) / 255) powr p * 255 + (1 - c) * R ! i ! j"
  using assms by (simp add: running_avg_update_def)

text \<open>
  C9 (amended): with \<open>extreme_meso\<close> enabled, on the first frame (no buffer yet) the
  buffer is initialised to \<open>(crop/255)^p\<cdot>255\<close> and the raw grayscale crop is fed to the
  Gaussian blur; on every later frame the buffer becomes
  \<open>c\<cdot>(crop/255)^p\<cdot>255 + (1 - c)\<cdot>R_prev\<close>, pixel by pixel, and the crop fed to the blur
  is that buffer cast to 8 bit.
\<close>

theorem meso_running_average:
  assumes "extreme_meso (self_params s) = Some True"
    and "preprocess_image cv s f roi = Inr (s1, gray, sg, std, thres, blur)"
  shows "blur = GaussianBlur cv sg (2 * py_int (gaussian_blur (self_params s)) + 1) \<and>
    (self_running_avg s = None \<longrightarrow>
       sg = crop (cvtColor cv f) roi \<and>
       self_running_avg s1 = Some (gamma_img (exponent (self_params s)) (crop (cvtColor cv f) roi))) \<and>
    (\<forall>R. self_running_avg s = Some R \<longrightarrow>
       self_running_avg s1 =
         Some (running_avg_update (running_avg (self_params s)) (exponent (self_params s))
                 (crop (cvtColor cv f) roi) R) \<and>
       sg = astype_uint8 (running_avg_update (running_avg (self_params s)) (exponent (self_params s))
                 (crop (cvtColor cv f) roi) R) \<and>
       (\<forall>i j. i < length (crop (cvtColor cv f) roi) \<longrightarrow> i < length R \<longrightarrow>
              j < length (crop (cvtColor cv f) roi ! i) \<longrightarrow> j < length (R ! i) \<longrightarrow>
              running_avg_update (running_avg (self_params s)) (exponent (self_params s))
                 (crop (cvtColor cv f) roi) R ! i ! j =
              running_avg (self_params s)
                * (real (unat (crop (cvtColor cv f) roi ! i ! j)) / 255) powr exponent (self_params s) * 255
              + (1 - running_avg (self_params s)) * R ! i ! j))"
proof -
  note pre = preprocess_image_Inr [OF assms(2)]
  have a: "blur = GaussianBlur cv sg (2 * py_int (gaussian_blur (self_params s)) + 1)"
    by (rule pre(5))
  have b: "sg = crop (cvtColor cv f) roi \<and>
       self_running_avg s1 = Some (gamma_img (exponent (self_params s)) (crop (cvtColor cv f) roi))"
    if "self_running_avg s = None"
    using pre(1,4) that assms(1) by (simp add: meso_step_def)
  have c: "self_running_avg s1 =
         Some (running_avg_update (running_avg (self_params s)) (exponent (self_params s))
                 (crop (cvtColor cv f) roi) R) \<and>
       sg = astype_uint8 (running_avg_update (running_avg (self_params s)) (exponent (self_params s))
                 (crop (cvtColor cv f) roi) R)"
    if "self_running_avg s = Some R" for R
    using pre(1,4) that assms(1) by (simp add: meso_step_def Let_def)
  from a b c running_avg_update_nth show ?thesis
    by simp
qed

lemma meso_params:
  "self_params tracker_meso = params_meso" "self_params tracker_meso1 = params_meso"
  "extreme_meso params_meso = Some True" "running_avg params_meso = 1 / 2" "exponent params_meso = 2"
  "gaussian_blur params_meso = 1"
  "self_running_avg tracker_meso = None"
  "self_running_avg tracker_meso1 = Some [[51 / 5, 51 / 5], [51 / 5, 51 / 5]]"
  by (simp_all add: tracker_meso_def tracker_meso1_def tracker_demo_def params_meso_def params_demo_def)

lemma meso_values:
  "crop frame_meso roi_meso = frame_meso"
  "gamma_img 2 frame_meso = [[51 / 5, 51 / 5], [51 / 5, 51 / 5]]"
  "running_avg_update (1 / 2) 2 frame_meso [[51 / 5, 51 / 5], [51 / 5, 51 / 5]] =
     [[51 / 5, 51 / 5], [51 / 5, 51 / 5]]"
  "astype_uint8 [[51 / 5, 51 / 5], [51 / 5, 51 / 5]] = [[10, 10], [10, 10]]"
  by (simp_all add: crop_def roi_meso_def frame_meso_def gamma_img_def running_avg_update_def
      astype_uint8_def py_int_def power2_eq_square)

lemma meso_first:
  "preprocess_image cv_demo tracker_meso frame_meso roi_meso =
     Inr (tracker_meso1, frame_meso, frame_meso, np_std frame_meso, frame_meso, frame_meso)"
  by (simp add: preprocess_image_def meso_step_def cv_demo_simps meso_params meso_values py_int_def Let_def)
     (simp add: tracker_meso1_def)

lemma meso_second:
  "preprocess_image cv_demo tracker_meso1 frame_meso roi_meso =
     Inr (tracker_meso1, frame_meso, [[10, 10], [10, 10]], np_std frame_meso,
          [[10, 10], [10, 10]], [[10, 10], [10, 10]])"
  by (simp add: preprocess_image_def meso_step_def cv_demo_simps meso_params meso_values py_int_def Let_def)

theorem meso_running_average_witness:
  "extreme_meso (self_params tracker_meso1) = Some True \<and>
   preprocess_image cv_demo tracker_meso1 frame_meso roi_meso =
     Inr (tracker_meso1, frame_meso, [[10, 10], [10, 10]], np_std frame_meso,
          [[10, 10], [10, 10]], [[10, 10], [10, 10]]) \<and>
   self_running_avg tracker_meso1 = Some [[51 / 5, 51 / 5], [51 / 5, 51 / 5]] \<and>
   [[10, 10], [10, 10]] =
     astype_uint8 (running_avg_update (1 / 2) 2 (crop (cvtColor cv_demo frame_meso) roi_meso)
        [[51 / 5, 51 / 5], [51 / 5, 51 / 5]])"
proof -
  have e: "extreme_meso (self_params tracker_meso1) = Some True"
    by (simp add: meso_params)
  from meso_running_average [OF e meso_second] e meso_second show ?thesis
    by (simp add: meso_params)
qed

text \<open>
  The first frame in the \<open>extreme_meso\<close> mode: the buffer becomes \<open>51/5\<close> in every pixel,
  which is \<open>10\<close> as an 8-bit value, and the crop fed to the blur is the raw crop of
  value \<open>51\<close>.
\<close>

theorem meso_first_frame_counterexample:
  "extreme_meso (self_params tracker_meso) = Some True \<and>
   self_running_avg tracker_meso = None \<and>
   preprocess_image cv_demo tracker_meso frame_meso roi_meso =
     Inr (tracker_meso1, frame_meso, frame_meso, np_std frame_meso, frame_meso, frame_meso) \<and>
   self_running_avg tracker_meso1 = Some [[51 / 5, 51 / 5], [51 / 5, 51 / 5]] \<and>
   astype_uint8 [[51 / 5, 51 / 5], [51 / 5, 51 / 5]] = [[10, 10], [10, 10]] \<and>
   frame_meso \<noteq> astype_uint8 [[51 / 5, 51 / 5], [51 / 5, 51 / 5]] \<and>
   GaussianBlur cv_demo frame_meso 3 \<noteq> GaussianBlur cv_demo (astype_uint8 [[51 / 5, 51 / 5], [51 / 5, 51 / 5]]) 3"
  using meso_first
  by (simp add: meso_params meso_values cv_demo_simps) (simp add: frame_meso_def)

end
